theory Spec2Isabelle
  imports Main "HOL-Library.AList"
begin

section \<open>Values, records of the table and the projection of results\<close>

text \<open>
  The storage layer of \<^verbatim>\<open>src/storage.ts\<close> keeps runs, steps, hooks and events in one
  keyed table. A stored record and a returned entity are both plain JavaScript objects:
  here a list of attribute names with their values, in the order of the object's keys.
  Numbers are the integers a JavaScript number holds exactly (epoch milliseconds,
  counters); \<open>NaN\<close> is kept because \<^verbatim>\<open>Number(cursor)\<close> can produce it, and
  \<open>BigInt\<close> because a caller can pass one.
\<close>

datatype jsval =
    Undefined
  | Null
  | Bool bool
  | Num int
  | NaN
  | BigInt int
  | Str string
  | Date int
  | InvalidDate
  | Arr "jsval list"
  | Obj "(string \<times> jsval) list"

type_synonym item = "(string \<times> jsval) list"

text \<open>Reading a property: a missing key reads as \<open>undefined\<close>.\<close>

definition getprop :: "item \<Rightarrow> string \<Rightarrow> jsval" where
  "getprop obj k = (case map_of obj k of None \<Rightarrow> Undefined | Some v \<Rightarrow> v)"

text \<open>JavaScript truthiness, as used by \<^verbatim>\<open>if (x)\<close>, \<^verbatim>\<open>!x\<close> and \<^verbatim>\<open>x ? a : b\<close>.\<close>

fun truthy :: "jsval \<Rightarrow> bool" where
  "truthy Undefined = False"
| "truthy Null = False"
| "truthy (Bool b) = b"
| "truthy (Num n) = (n \<noteq> 0)"
| "truthy NaN = False"
| "truthy (BigInt n) = (n \<noteq> 0)"
| "truthy (Str s) = (s \<noteq> [])"
| "truthy _ = True"

text \<open>\<^verbatim>\<open>a ?? b\<close>\<close>

definition nullish :: "jsval \<Rightarrow> jsval \<Rightarrow> jsval" where
  "nullish v d = (if v = Undefined \<or> v = Null then d else v)"

text \<open>
  \<^verbatim>\<open>Number(s)\<close> on a string. A string of decimal digits with an optional minus sign
  that denotes an integer of magnitude at most \<open>2\<^sup>5\<^sup>3\<close> is read as that integer, and the
  empty string as 0: there JavaScript's reading is exact. What JavaScript makes of every
  other string (blanks, a plus sign, fractions, exponents, other radices, longer
  integers, text that is no number) is not computed here: it is the function \<open>rest\<close>,
  which the surroundings of a call supply.
\<close>

fun decimal :: "string \<Rightarrow> nat \<Rightarrow> nat option" where
  "decimal [] acc = Some acc"
| "decimal (c # cs) acc =
     (if (48::nat) \<le> of_char c \<and> of_char c \<le> (57::nat)
      then decimal cs (10 * acc + (of_char c - 48)) else None)"

definition decimal_integer :: "string \<Rightarrow> int option" where
  "decimal_integer s =
     (case s of
        [] \<Rightarrow> Some 0
      | c # cs \<Rightarrow>
          (if c = CHR ''-'' \<and> cs \<noteq> []
           then map_option (\<lambda>n. - int n) (decimal cs 0)
           else map_option int (decimal (c # cs) 0)))"

definition Number :: "(string \<Rightarrow> jsval) \<Rightarrow> string \<Rightarrow> jsval" where
  "Number rest s =
     (case decimal_integer s of
        None \<Rightarrow> rest s
      | Some n \<Rightarrow> (if \<bar>n\<bar> \<le> 9007199254740992 then Num n else rest s))"

text \<open>
  \<^verbatim>\<open>JSON.stringify(v)\<close> throws a \<open>TypeError\<close> when it meets a \<open>BigInt\<close>, at the top
  or inside an array or an object, and returns for every other value of this development
  (an object that contains itself, on which it throws as well, is not among them).
\<close>

fun stringifies :: "jsval \<Rightarrow> bool" where
  "stringifies (BigInt n) = False"
| "stringifies (Arr xs) = list_all stringifies xs"
| "stringifies (Obj kvs) = list_all stringifies (map snd kvs)"
| "stringifies v = True"

subsection \<open>\<^verbatim>\<open>compact\<close>: the projection of a raw record\<close>

definition is_timestamp_key :: "string \<Rightarrow> bool" where
  "is_timestamp_key key \<longleftrightarrow>
     key = ''createdAt'' \<or> key = ''updatedAt'' \<or> key = ''startedAt'' \<or> key = ''completedAt''"

fun compact_field :: "string \<times> jsval \<Rightarrow> string \<times> jsval" where
  "compact_field (key, Null) = (key, Undefined)"
| "compact_field (key, Num n) = (if is_timestamp_key key then (key, Date n) else (key, Num n))"
| "compact_field (key, NaN) = (if is_timestamp_key key then (key, InvalidDate) else (key, NaN))"
| "compact_field (key, v) = (key, v)"

definition compact :: "item \<Rightarrow> item" where
  "compact obj = map compact_field obj"

section \<open>The backend: a keyed table with conditional writes and range queries\<close>

text \<open>
  The document client (\<^verbatim>\<open>dyn.send\<close>) is the external collaborator. Its five commands
  are modelled on a table held as a list of records, each addressed by its \<open>PK\<close> and
  \<open>SK\<close> attributes:
  \<^item> \<open>dyn_get\<close> (GetCommand) returns the record at a key, if any;
  \<^item> \<open>dyn_put\<close> (PutCommand) writes a record if its condition holds of the record now
    at that key;
  \<^item> \<open>dyn_update\<close> (UpdateCommand with a SET expression and \<open>ReturnValues: ALL_NEW\<close>)
    edits the record at a key, or adds a new record with that key if there is none, and
    returns all attributes of the record after the edit;
  \<^item> \<open>dyn_query\<close> (QueryCommand) returns the records of one group in the order of the
    sort attribute, at most \<open>Limit\<close> of them;
  \<^item> \<open>dyn_delete\<close> (DeleteCommand with \<open>ReturnValues: ALL_OLD\<close>).
  A call can also fail for reasons of the service itself; \<open>faults\<close> schedules that for
  the calls to come (\<open>True\<close>: the next call is rejected), so a backend whose schedule
  is empty answers every call. The table name is fixed and left out. The conversion of
  values to the wire format is not modelled: a record is stored as it is given. A query
  is refused (\<open>ValidationException\<close>) when a value it compares a key with is no string
  and no number, when its limit is not positive, or when it names a reserved word
  directly in its key condition.
\<close>

record backend =
  table :: "item list"
  faults :: "bool list"

datatype dyn_error = ConditionalCheckFailedException | ValidationException | ServiceFailure

definition attempt :: "backend \<Rightarrow> bool \<times> backend" where
  "attempt b = (case faults b of [] \<Rightarrow> (False, b) | f # fs \<Rightarrow> (f, b\<lparr>faults := fs\<rparr>))"

definition has_key :: "string \<times> string \<Rightarrow> item \<Rightarrow> bool" where
  "has_key k it \<longleftrightarrow> map_of it ''PK'' = Some (Str (fst k)) \<and> map_of it ''SK'' = Some (Str (snd k))"

definition same_key :: "item \<Rightarrow> item \<Rightarrow> bool" where
  "same_key a it \<longleftrightarrow> map_of it ''PK'' = map_of a ''PK'' \<and> map_of it ''SK'' = map_of a ''SK''"

text \<open>Condition expressions, evaluated on the record now at the key (no attributes if none).\<close>

datatype condition =
    attribute_not_exists string
  | attribute_equals string jsval
  | cond_and condition condition

fun holds :: "condition \<Rightarrow> item \<Rightarrow> bool" where
  "holds (attribute_not_exists a) it = (map_of it a = None)"
| "holds (attribute_equals a v) it = (map_of it a = Some v)"
| "holds (cond_and c d) it = (holds c it \<and> holds d it)"

definition holds_opt :: "condition option \<Rightarrow> item option \<Rightarrow> bool" where
  "holds_opt c old =
     (case c of None \<Rightarrow> True
      | Some c' \<Rightarrow> holds c' (case old of None \<Rightarrow> [] | Some it \<Rightarrow> it))"

definition dyn_get :: "string \<times> string \<Rightarrow> backend \<Rightarrow> (dyn_error + item option) \<times> backend" where
  "dyn_get Key b =
     (case attempt b of
        (True, b') \<Rightarrow> (Inl ServiceFailure, b')
      | (False, b') \<Rightarrow> (Inr (find (has_key Key) (table b')), b'))"

definition dyn_put :: "item \<Rightarrow> condition option \<Rightarrow> backend \<Rightarrow> (dyn_error + unit) \<times> backend" where
  "dyn_put Item c b =
     (case attempt b of
        (True, b') \<Rightarrow> (Inl ServiceFailure, b')
      | (False, b') \<Rightarrow>
          (if holds_opt c (find (same_key Item) (table b'))
           then (Inr (), b'\<lparr>table := Item # filter (\<lambda>it. \<not> same_key Item it) (table b')\<rparr>)
           else (Inl ConditionalCheckFailedException, b')))"

definition apply_set :: "item \<Rightarrow> (string \<times> jsval) list \<Rightarrow> item" where
  "apply_set it sets = foldl (\<lambda>acc (a, v). AList.update a v acc) it sets"

definition dyn_update ::
  "string \<times> string \<Rightarrow> (string \<times> jsval) list \<Rightarrow> condition option \<Rightarrow> backend
    \<Rightarrow> (dyn_error + item option) \<times> backend" where
  "dyn_update Key sets c b =
     (case attempt b of
        (True, b') \<Rightarrow> (Inl ServiceFailure, b')
      | (False, b') \<Rightarrow>
          (let old = find (has_key Key) (table b') in
           if holds_opt c old
           then (let base = (case old of
                               None \<Rightarrow> [(''PK'', Str (fst Key)), (''SK'', Str (snd Key))]
                             | Some it \<Rightarrow> it);
                     new = apply_set base sets
                 in (Inr (Some new),
                     b'\<lparr>table := new # filter (\<lambda>it. \<not> has_key Key it) (table b')\<rparr>))
           else (Inl ConditionalCheckFailedException, b')))"

definition dyn_delete :: "string \<times> string \<Rightarrow> backend \<Rightarrow> (dyn_error + item option) \<times> backend" where
  "dyn_delete Key b =
     (case attempt b of
        (True, b') \<Rightarrow> (Inl ServiceFailure, b')
      | (False, b') \<Rightarrow>
          (Inr (find (has_key Key) (table b')),
           b'\<lparr>table := filter (\<lambda>it. \<not> has_key Key it) (table b')\<rparr>))"

subsection \<open>Queries\<close>

text \<open>Strings are ordered by their bytes, numbers by value; these are the two key types.\<close>

fun str_less :: "string \<Rightarrow> string \<Rightarrow> bool" where
  "str_less [] [] = False"
| "str_less [] (y # ys) = True"
| "str_less (x # xs) [] = False"
| "str_less (x # xs) (y # ys) =
     (if x = y then str_less xs ys else (of_char x :: nat) < of_char y)"

fun val_less :: "jsval \<Rightarrow> jsval \<Rightarrow> bool" where
  "val_less (Num a) (Num b) = (a < b)"
| "val_less (Str a) (Str b) = str_less a b"
| "val_less _ _ = False"

fun key_typed :: "jsval \<Rightarrow> bool" where
  "key_typed (Num n) = True"
| "key_typed (Str s) = True"
| "key_typed _ = False"

datatype comparator = Lt | Gt

text \<open>
  An attribute is named in an expression either directly or through a placeholder of
  \<^verbatim>\<open>ExpressionAttributeNames\<close> (as in \<^verbatim>\<open>#token = :t\<close>). The service refuses an
  expression that names one of its reserved words directly. Of the names the source
  writes into its key conditions (\<open>PK\<close>, \<open>workflowName\<close>, \<open>status\<close>,
  \<open>entityType\<close>, \<open>hookId\<close>, \<open>token\<close>, \<open>correlationId\<close>) the reserved ones are
  \<open>status\<close> and \<open>token\<close>; \<open>reserved_word\<close> decides these names only.
\<close>

datatype attr_ref = Direct string | Alias string

fun attr_name :: "attr_ref \<Rightarrow> string" where
  "attr_name (Direct n) = n"
| "attr_name (Alias n) = n"

definition reserved_word :: "string \<Rightarrow> bool" where
  "reserved_word n \<longleftrightarrow> n = ''status'' \<or> n = ''token''"

fun well_named :: "attr_ref \<Rightarrow> bool" where
  "well_named (Direct n) = (\<not> reserved_word n)"
| "well_named (Alias n) = True"

record query =
  IndexName :: "string option"
  KeyCondition :: "attr_ref \<times> jsval"
  RangeCondition :: "(string \<times> comparator \<times> jsval) option"
  ScanIndexForward :: bool
  Limit :: nat

text \<open>
  Modelled from the spec: the sort attribute of each secondary index, which the table
  definition (not part of the sources) declares. The spec lists the indexes by workflow
  name, by status, by entity type and by correlation id as ordered by creation instant,
  and those by hook id and by token as point lookups; the source's comment at
  \<^verbatim>\<open>hooks.get\<close> gives \<open>PK\<close> as the range key of \<open>hookIdIndex\<close>. The table itself is
  ordered by \<open>SK\<close>. Among records of equal sort value the service promises no order;
  here they come as the table holds them (reversed in a backward scan), and the table of
  a statement is any list of records.
\<close>

definition sort_attribute :: "string option \<Rightarrow> string option" where
  "sort_attribute ix =
     (case ix of
        None \<Rightarrow> Some ''SK''
      | Some n \<Rightarrow>
          (if n = ''workflowNameIndex'' \<or> n = ''statusIndex'' \<or> n = ''entityTypeIndex''
              \<or> n = ''correlationIndex'' then Some ''createdAt''
           else if n = ''hookIdIndex'' then Some ''PK''
           else None))"

definition in_range :: "(string \<times> comparator \<times> jsval) option \<Rightarrow> item \<Rightarrow> bool" where
  "in_range rc it =
     (case rc of
        None \<Rightarrow> True
      | Some (a, Lt, v) \<Rightarrow> val_less (getprop it a) v
      | Some (a, Gt, v) \<Rightarrow> val_less v (getprop it a))"

definition indexed :: "string option \<Rightarrow> item \<Rightarrow> bool" where
  "indexed ix it = (case sort_attribute ix of None \<Rightarrow> True | Some a \<Rightarrow> key_typed (getprop it a))"

definition matches :: "query \<Rightarrow> item \<Rightarrow> bool" where
  "matches q it \<longleftrightarrow>
     map_of it (attr_name (fst (KeyCondition q))) = Some (snd (KeyCondition q))
     \<and> indexed (IndexName q) it \<and> in_range (RangeCondition q) it"

fun insert_by :: "(item \<Rightarrow> jsval) \<Rightarrow> item \<Rightarrow> item list \<Rightarrow> item list" where
  "insert_by f x [] = [x]"
| "insert_by f x (y # ys) =
     (if val_less (f y) (f x) then y # insert_by f x ys else x # y # ys)"

definition sort_by :: "(item \<Rightarrow> jsval) \<Rightarrow> item list \<Rightarrow> item list" where
  "sort_by f xs = foldr (insert_by f) xs []"

definition ordered :: "query \<Rightarrow> item list \<Rightarrow> item list" where
  "ordered q xs =
     (let asc = (case sort_attribute (IndexName q) of
                   None \<Rightarrow> xs
                 | Some a \<Rightarrow> sort_by (\<lambda>it. getprop it a) xs)
      in if ScanIndexForward q then asc else rev asc)"

definition valid_query :: "query \<Rightarrow> bool" where
  "valid_query q \<longleftrightarrow>
     well_named (fst (KeyCondition q))
     \<and> key_typed (snd (KeyCondition q))
     \<and> (case RangeCondition q of None \<Rightarrow> True | Some (a, c, v) \<Rightarrow> key_typed v)
     \<and> 0 < Limit q"

definition dyn_query :: "query \<Rightarrow> backend \<Rightarrow> (dyn_error + item list) \<times> backend" where
  "dyn_query q b =
     (case attempt b of
        (True, b') \<Rightarrow> (Inl ServiceFailure, b')
      | (False, b') \<Rightarrow>
          (if valid_query q
           then (Inr (take (Limit q) (ordered q (filter (matches q) (table b')))), b')
           else (Inl ValidationException, b')))"

section \<open>The stores\<close>

text \<open>
  A store method either returns, or throws a \<^verbatim>\<open>WorkflowAPIError\<close> with a message and a
  status, or lets the rejection of \<^verbatim>\<open>dyn.send\<close> through. What a method reads from
  its surroundings is given to it: \<open>nowMs env i\<close> is the \<open>i\<close>-th reading of the clock
  during the call, \<open>ulid env\<close> the identifier the generator hands out, and
  \<open>StringToNumber env\<close> JavaScript's reading of the strings that \<open>Number\<close> above
  leaves open. A \<open>TypeError\<close> is what \<^verbatim>\<open>JSON.stringify\<close> throws. The fields of a
  method's parameter object are the arguments of its function here. A page size is a
  natural number; a cursor is a string, as the interface declares it (a creation instant
  handed back as a number is read by \<^verbatim>\<open>Number\<close> as its decimal string is).
\<close>

datatype error = WorkflowAPIError string nat | Rejected dyn_error | TypeError string

record env =
  nowMs :: "nat \<Rightarrow> int"
  ulid :: string
  StringToNumber :: "string \<Rightarrow> jsval"

datatype sort_order = asc | desc

record pagination =
  limit :: "nat option"
  cursor :: "string option"
  sortOrder :: "sort_order option"

text \<open>A page of a list call; \<open>next_cursor\<close> is the \<^verbatim>\<open>cursor\<close> field of the result.\<close>

record page =
  data :: "item list"
  hasMore :: bool
  next_cursor :: jsval

definition ULID_PREFIX_RUN :: string where "ULID_PREFIX_RUN = ''wrun_''"
definition ULID_PREFIX_EVT :: string where "ULID_PREFIX_EVT = ''wevt_''"
definition ULID_PREFIX_STEP :: string where "ULID_PREFIX_STEP = ''wstep_''"

definition runPK :: "string \<Rightarrow> string" where "runPK runId = ''RUN#'' @ runId"
definition runMetaSK :: string where "runMetaSK = ''RUN#METADATA''"
definition stepSK :: "string \<Rightarrow> string" where "stepSK stepId = ''STEP#'' @ stepId"
definition eventSK :: "string \<Rightarrow> string" where "eventSK eventId = ''EVENT#'' @ eventId"
definition hookSK :: "string \<Rightarrow> string" where "hookSK hookId = ''HOOK#'' @ hookId"

text \<open>\<^verbatim>\<open>params?.pagination?.limit ?? d\<close> and \<^verbatim>\<open>params?.pagination?.cursor\<close>\<close>

definition limit_or :: "pagination option \<Rightarrow> nat \<Rightarrow> nat" where
  "limit_or pg d = (case pg of None \<Rightarrow> d | Some p \<Rightarrow> (case limit p of None \<Rightarrow> d | Some n \<Rightarrow> n))"

definition cursor_of :: "pagination option \<Rightarrow> string option" where
  "cursor_of pg = (case pg of None \<Rightarrow> None | Some p \<Rightarrow> cursor p)"

text \<open>\<^verbatim>\<open>params.pagination?.sortOrder || "asc"\<close>\<close>

definition sortOrder_of :: "pagination option \<Rightarrow> sort_order" where
  "sortOrder_of pg =
     (case pg of None \<Rightarrow> asc | Some p \<Rightarrow> (case sortOrder p of None \<Rightarrow> asc | Some so \<Rightarrow> so))"

text \<open>An optional string used as a condition: present and not empty.\<close>

definition if_truthy :: "string option \<Rightarrow> string option" where
  "if_truthy x = (case x of None \<Rightarrow> None | Some s \<Rightarrow> (if s = [] then None else Some s))"

text \<open>\<^verbatim>\<open>values.at(-1)?.attr ?? null\<close>\<close>

definition last_attr :: "item list \<Rightarrow> string \<Rightarrow> jsval" where
  "last_attr values a = (case values of [] \<Rightarrow> Null | _ # _ \<Rightarrow> nullish (getprop (last values) a) Null)"

definition is_entity :: "string \<Rightarrow> item \<Rightarrow> bool" where
  "is_entity t it \<longleftrightarrow> getprop it ''entityType'' = Str t"

subsection \<open>Runs\<close>

definition runs_get :: "string \<Rightarrow> backend \<Rightarrow> (error + item) \<times> backend" where
  "runs_get rid b =
     (case dyn_get (runPK rid, runMetaSK) b of
        (Inl f, b') \<Rightarrow> (Inl (Rejected f), b')
      | (Inr None, b') \<Rightarrow> (Inl (WorkflowAPIError (''Run not found: '' @ rid) 404), b')
      | (Inr (Some Item), b') \<Rightarrow> (Inr (compact Item), b'))"

definition runs_cancel :: "string \<Rightarrow> env \<Rightarrow> backend \<Rightarrow> (error + item) \<times> backend" where
  "runs_cancel rid e b =
     (case dyn_update (runPK rid, runMetaSK)
             [(''status'', Str ''cancelled''), (''completedAt'', Num (nowMs e 0)),
              (''updatedAt'', Num (nowMs e 1))] None b of
        (Inl f, b') \<Rightarrow> (Inl (Rejected f), b')
      | (Inr None, b') \<Rightarrow> (Inl (WorkflowAPIError (''Run not found: '' @ rid) 404), b')
      | (Inr (Some Attributes), b') \<Rightarrow> (Inr (compact Attributes), b'))"

definition runs_pause :: "string \<Rightarrow> env \<Rightarrow> backend \<Rightarrow> (error + item) \<times> backend" where
  "runs_pause rid e b =
     (case dyn_update (runPK rid, runMetaSK)
             [(''status'', Str ''paused''), (''updatedAt'', Num (nowMs e 0))] None b of
        (Inl f, b') \<Rightarrow> (Inl (Rejected f), b')
      | (Inr None, b') \<Rightarrow> (Inl (WorkflowAPIError (''Run not found: '' @ rid) 404), b')
      | (Inr (Some Attributes), b') \<Rightarrow> (Inr (compact Attributes), b'))"

text \<open>
  \<^verbatim>\<open>resume\<close> wraps the call in \<^verbatim>\<open>try\<close>/\<^verbatim>\<open>catch\<close>: every rejection becomes the 404.
  \<^verbatim>\<open>compact\<close> of absent attributes is the empty object.
\<close>

definition runs_resume :: "string \<Rightarrow> env \<Rightarrow> backend \<Rightarrow> (error + item) \<times> backend" where
  "runs_resume rid e b =
     (case dyn_update (runPK rid, runMetaSK)
             [(''status'', Str ''running''), (''updatedAt'', Num (nowMs e 0))]
             (Some (attribute_equals ''status'' (Str ''paused''))) b of
        (Inl err, b') \<Rightarrow> (Inl (WorkflowAPIError (''Paused run not found: '' @ rid) 404), b')
      | (Inr None, b') \<Rightarrow> (Inr (compact []), b')
      | (Inr (Some Attributes), b') \<Rightarrow> (Inr (compact Attributes), b'))"

text \<open>
  \<^verbatim>\<open>list\<close> picks one of three queries (by workflow name, by status, all runs); the
  three branches end in the same three lines, written once here.
\<close>

definition runs_list_query ::
  "pagination option \<Rightarrow> string option \<Rightarrow> string option \<Rightarrow> env \<Rightarrow> query" where
  "runs_list_query pg workflowName status e =
     (let limit = limit_or pg 20;
          range = (case if_truthy (cursor_of pg) of
                     None \<Rightarrow> None
                   | Some c \<Rightarrow> Some (''createdAt'', Lt, Number (StringToNumber e) c))
      in case if_truthy workflowName of
           Some wfn \<Rightarrow>
             \<lparr>IndexName = Some ''workflowNameIndex'', KeyCondition = (Direct ''workflowName'', Str wfn),
              RangeCondition = range, ScanIndexForward = False, Limit = limit + 1\<rparr>
         | None \<Rightarrow>
             (case if_truthy status of
                Some s \<Rightarrow>
                  \<lparr>IndexName = Some ''statusIndex'', KeyCondition = (Direct ''status'', Str s),
                   RangeCondition = range, ScanIndexForward = False, Limit = limit + 1\<rparr>
              | None \<Rightarrow>
                  \<lparr>IndexName = Some ''entityTypeIndex'', KeyCondition = (Direct ''entityType'', Str ''Run''),
                   RangeCondition = range, ScanIndexForward = False, Limit = limit + 1\<rparr>))"

definition runs_list ::
  "pagination option \<Rightarrow> string option \<Rightarrow> string option \<Rightarrow> env \<Rightarrow> backend
    \<Rightarrow> (error + page) \<times> backend" where
  "runs_list pg workflowName status e b =
     (let limit = limit_or pg 20 in
      case dyn_query (runs_list_query pg workflowName status e) b of
        (Inl f, b') \<Rightarrow> (Inl (Rejected f), b')
      | (Inr Items, b') \<Rightarrow>
          (let values = take limit Items
           in (Inr \<lparr>data = map compact values, hasMore = (limit < length Items),
                    next_cursor = last_attr values ''createdAt''\<rparr>, b')))"

definition runs_create ::
  "string \<Rightarrow> jsval \<Rightarrow> jsval \<Rightarrow> string \<Rightarrow> env \<Rightarrow> backend \<Rightarrow> (error + item) \<times> backend" where
  "runs_create workflowName input executionContext deploymentId e b =
     (let rid = ULID_PREFIX_RUN @ ulid e;
          now = nowMs e 0;
          item = [(''PK'', Str (runPK rid)), (''SK'', Str runMetaSK), (''entityType'', Str ''Run''),
                  (''runId'', Str rid), (''workflowName'', Str workflowName), (''input'', input),
                  (''executionContext'', nullish executionContext Null),
                  (''deploymentId'', Str deploymentId), (''status'', Str ''pending''),
                  (''createdAt'', Num now), (''updatedAt'', Num now)]
      in case dyn_put item (Some (attribute_not_exists ''PK'')) b of
           (Inl err, b') \<Rightarrow> (Inl (WorkflowAPIError (''Run '' @ rid @ '' already exists'') 409), b')
         | (Inr u, b') \<Rightarrow> (Inr (compact item), b'))"

text \<open>
  \<^verbatim>\<open>update\<close> collects the SET expression in three parallel structures (names, values,
  parts); here one list of assignments in the order of the parts. \<open>partial\<close> is the
  partial update as the object it is.
\<close>

definition copied :: "string list \<Rightarrow> item \<Rightarrow> (string \<times> jsval) list" where
  "copied ks partial = concat (map (\<lambda>k. if getprop partial k \<noteq> Undefined then [(k, getprop partial k)] else []) ks)"

definition runs_update :: "string \<Rightarrow> item \<Rightarrow> env \<Rightarrow> backend \<Rightarrow> (error + item) \<times> backend" where
  "runs_update rid partial e b =
     (case dyn_get (runPK rid, runMetaSK) b of
        (Inl f, b') \<Rightarrow> (Inl (Rejected f), b')
      | (Inr None, b') \<Rightarrow> (Inl (WorkflowAPIError (''Run not found: '' @ rid) 404), b')
      | (Inr (Some current), b') \<Rightarrow>
          (let now = nowMs e 0;
               setParts =
                 copied [''status'', ''output'', ''error'', ''errorCode'', ''deploymentId'',
                         ''executionContext''] partial
                 @ (if getprop partial ''status'' = Str ''running'' \<and> \<not> truthy (getprop current ''startedAt'')
                    then [(''startedAt'', Num now)] else [])
                 @ (if getprop partial ''status'' \<in> set [Str ''completed'', Str ''failed'', Str ''cancelled'']
                    then [(''completedAt'', Num now)] else [])
                 @ [(''updatedAt'', Num now)]
           in if length setParts = 0 then (Inr (compact current), b')
              else (case dyn_update (runPK rid, runMetaSK) setParts None b' of
                      (Inl f, b'') \<Rightarrow> (Inl (Rejected f), b'')
                    | (Inr None, b'') \<Rightarrow> (Inl (WorkflowAPIError (''Run not found: '' @ rid) 404), b'')
                    | (Inr (Some Attributes), b'') \<Rightarrow> (Inr (compact Attributes), b''))))"

subsection \<open>Steps\<close>

definition steps_create ::
  "string \<Rightarrow> string option \<Rightarrow> string \<Rightarrow> jsval \<Rightarrow> env \<Rightarrow> backend \<Rightarrow> (error + item) \<times> backend" where
  "steps_create runId stepId_given stepName input e b =
     (let stepId = (case stepId_given of None \<Rightarrow> ULID_PREFIX_STEP @ ulid e | Some s \<Rightarrow> s);
          now = nowMs e 0;
          item = [(''PK'', Str (runPK runId)), (''SK'', Str (stepSK stepId)),
                  (''entityType'', Str ''Step''), (''runId'', Str runId), (''stepId'', Str stepId),
                  (''stepName'', Str stepName), (''input'', input), (''status'', Str ''pending''),
                  (''attempt'', Num 1), (''createdAt'', Num now), (''updatedAt'', Num now)]
      in case dyn_put item
                (Some (cond_and (attribute_not_exists ''PK'') (attribute_not_exists ''SK''))) b of
           (Inl err, b') \<Rightarrow> (Inl (WorkflowAPIError (''Step '' @ stepId @ '' already exists'') 409), b')
         | (Inr u, b') \<Rightarrow> (Inr (compact item), b'))"

definition steps_get :: "string \<Rightarrow> string \<Rightarrow> backend \<Rightarrow> (error + item) \<times> backend" where
  "steps_get runId stepId b =
     (if runId = [] then (Inl (WorkflowAPIError (''Run not found: '' @ runId) 404), b)
      else (case dyn_get (runPK runId, stepSK stepId) b of
              (Inl f, b') \<Rightarrow> (Inl (Rejected f), b')
            | (Inr None, b') \<Rightarrow> (Inl (WorkflowAPIError (''Step not found: '' @ stepId) 404), b')
            | (Inr (Some Item), b') \<Rightarrow> (Inr (compact Item), b')))"

definition steps_update ::
  "string \<Rightarrow> string \<Rightarrow> item \<Rightarrow> env \<Rightarrow> backend \<Rightarrow> (error + item) \<times> backend" where
  "steps_update runId stepId partial e b =
     (case dyn_get (runPK runId, stepSK stepId) b of
        (Inl f, b') \<Rightarrow> (Inl (Rejected f), b')
      | (Inr None, b') \<Rightarrow> (Inl (WorkflowAPIError (''Step not found: '' @ stepId) 404), b')
      | (Inr (Some current), b') \<Rightarrow>
          (let now = nowMs e 0;
               setParts =
                 copied [''status'', ''output'', ''error'', ''errorCode'', ''attempt''] partial
                 @ (if getprop partial ''status'' = Str ''running'' \<and> \<not> truthy (getprop current ''startedAt'')
                    then [(''startedAt'', Num now)] else [])
                 @ (if getprop partial ''status'' \<in> set [Str ''completed'', Str ''failed'']
                    then [(''completedAt'', Num now)] else [])
                 @ [(''updatedAt'', Num now)]
           in case dyn_update (runPK runId, stepSK stepId) setParts None b' of
                (Inl f, b'') \<Rightarrow> (Inl (Rejected f), b'')
              | (Inr None, b'') \<Rightarrow> (Inl (WorkflowAPIError (''Step not found: '' @ stepId) 404), b'')
              | (Inr (Some Attributes), b'') \<Rightarrow> (Inr (compact Attributes), b'')))"

definition steps_list_query :: "string \<Rightarrow> pagination option \<Rightarrow> query" where
  "steps_list_query runId pg =
     \<lparr>IndexName = None, KeyCondition = (Direct ''PK'', Str (runPK runId)),
      RangeCondition = (case if_truthy (cursor_of pg) of
                          None \<Rightarrow> None
                        | Some c \<Rightarrow> Some (''SK'', Lt, Str (stepSK c))),
      ScanIndexForward = False, Limit = limit_or pg 20 + 1\<rparr>"

definition steps_list :: "string \<Rightarrow> pagination option \<Rightarrow> backend \<Rightarrow> (error + page) \<times> backend" where
  "steps_list runId pg b =
     (let limit = limit_or pg 20 in
      case dyn_query (steps_list_query runId pg) b of
        (Inl f, b') \<Rightarrow> (Inl (Rejected f), b')
      | (Inr Items, b') \<Rightarrow>
          (let values = take limit (filter (is_entity ''Step'') Items)
           in (Inr \<lparr>data = map compact values, hasMore = (limit < length Items),
                    next_cursor = last_attr values ''stepId''\<rparr>, b')))"

subsection \<open>Hooks\<close>

definition hooks_get :: "string \<Rightarrow> backend \<Rightarrow> (error + item) \<times> backend" where
  "hooks_get hookId b =
     (case dyn_query \<lparr>IndexName = Some ''hookIdIndex'', KeyCondition = (Direct ''hookId'', Str hookId),
                      RangeCondition = None, ScanIndexForward = True, Limit = 1\<rparr> b of
        (Inl f, b') \<Rightarrow> (Inl (Rejected f), b')
      | (Inr [], b') \<Rightarrow> (Inl (WorkflowAPIError (''Hook not found: '' @ hookId) 404), b')
      | (Inr (item # rest), b') \<Rightarrow> (Inr (compact item), b'))"

definition hooks_create ::
  "string \<Rightarrow> string \<Rightarrow> string \<Rightarrow> env \<Rightarrow> backend \<Rightarrow> (error + item) \<times> backend" where
  "hooks_create runId hookId token e b =
     (let now = nowMs e 0;
          item = [(''PK'', Str (runPK runId)), (''SK'', Str (hookSK hookId)),
                  (''entityType'', Str ''Hook''), (''runId'', Str runId), (''hookId'', Str hookId),
                  (''token'', Str token), (''ownerId'', Str []), (''projectId'', Str []),
                  (''environment'', Str []), (''createdAt'', Num now)]
      in case dyn_put item
                (Some (cond_and (attribute_not_exists ''PK'') (attribute_not_exists ''SK''))) b of
           (Inl err, b') \<Rightarrow> (Inl (WorkflowAPIError (''Hook '' @ hookId @ '' already exists'') 409), b')
         | (Inr u, b') \<Rightarrow> (Inr (compact item), b'))"

text \<open>The \<^verbatim>\<open>.catch\<close> on the query turns a rejection into \<^verbatim>\<open>{ Items: [] }\<close>.\<close>

definition hooks_getByToken :: "string \<Rightarrow> backend \<Rightarrow> (error + item) \<times> backend" where
  "hooks_getByToken token b =
     (case dyn_query \<lparr>IndexName = Some ''tokenIndex'', KeyCondition = (Alias ''token'', Str token),
                      RangeCondition = None, ScanIndexForward = True, Limit = 1\<rparr> b of
        (r, b') \<Rightarrow>
          (let Items = (case r of Inl err \<Rightarrow> [] | Inr its \<Rightarrow> its)
           in case Items of
                [] \<Rightarrow> (Inl (WorkflowAPIError (''Hook not found for token: '' @ token) 404), b')
              | item # rest \<Rightarrow> (Inr (compact item), b')))"

definition hooks_list_query :: "string option \<Rightarrow> pagination option \<Rightarrow> env \<Rightarrow> query" where
  "hooks_list_query runId pg e =
     (case if_truthy runId of
        Some r \<Rightarrow>
          \<lparr>IndexName = None, KeyCondition = (Direct ''PK'', Str (runPK r)),
           RangeCondition = (case if_truthy (cursor_of pg) of
                               None \<Rightarrow> None
                             | Some c \<Rightarrow> Some (''SK'', Lt, Str (hookSK c))),
           ScanIndexForward = False, Limit = limit_or pg 100 + 1\<rparr>
      | None \<Rightarrow>
          \<lparr>IndexName = Some ''entityTypeIndex'', KeyCondition = (Direct ''entityType'', Str ''Hook''),
           RangeCondition = (case if_truthy (cursor_of pg) of
                               None \<Rightarrow> None
                             | Some c \<Rightarrow> Some (''createdAt'', Lt, Number (StringToNumber e) c)),
           ScanIndexForward = False, Limit = limit_or pg 100 + 1\<rparr>)"

definition hooks_list ::
  "string option \<Rightarrow> pagination option \<Rightarrow> env \<Rightarrow> backend \<Rightarrow> (error + page) \<times> backend" where
  "hooks_list runId pg e b =
     (let limit = limit_or pg 100 in
      case dyn_query (hooks_list_query runId pg e) b of
        (Inl f, b') \<Rightarrow> (Inl (Rejected f), b')
      | (Inr Items, b') \<Rightarrow>
          (let values = take limit (filter (is_entity ''Hook'') Items)
           in (Inr \<lparr>data = map compact values, hasMore = (limit < length Items),
                    next_cursor = (case if_truthy runId of
                                     Some r \<Rightarrow> last_attr values ''hookId''
                                   | None \<Rightarrow> last_attr values ''createdAt'')\<rparr>, b')))"

definition hooks_dispose :: "string \<Rightarrow> backend \<Rightarrow> (error + item) \<times> backend" where
  "hooks_dispose hookId b =
     (case dyn_query \<lparr>IndexName = Some ''hookIdIndex'', KeyCondition = (Direct ''hookId'', Str hookId),
                      RangeCondition = None, ScanIndexForward = True, Limit = 1\<rparr> b of
        (Inl f, b') \<Rightarrow> (Inl (Rejected f), b')
      | (Inr [], b') \<Rightarrow> (Inl (WorkflowAPIError (''Hook not found: '' @ hookId) 404), b')
      | (Inr (item # rest), b') \<Rightarrow>
          (case (getprop item ''PK'', getprop item ''SK'') of
             (Str pk, Str sk) \<Rightarrow>
               (case dyn_delete (pk, sk) b' of
                  (Inl f, b'') \<Rightarrow> (Inl (Rejected f), b'')
                | (Inr None, b'') \<Rightarrow> (Inl (WorkflowAPIError (''Hook not found: '' @ hookId) 404), b'')
                | (Inr (Some Attributes), b'') \<Rightarrow> (Inr (compact Attributes), b''))
           | _ \<Rightarrow> (Inl (Rejected ValidationException), b')))"

subsection \<open>Events\<close>

definition events_create ::
  "string \<Rightarrow> jsval \<Rightarrow> string \<Rightarrow> jsval option \<Rightarrow> env \<Rightarrow> backend \<Rightarrow> (error + item) \<times> backend" where
  "events_create runId correlationId eventType eventData e b =
     (let eventId = ULID_PREFIX_EVT @ ulid e;
          now = nowMs e 0;
          item = [(''PK'', Str (runPK runId)), (''SK'', Str (eventSK eventId)),
                  (''entityType'', Str ''Event''), (''runId'', Str runId), (''eventId'', Str eventId),
                  (''correlationId'', nullish correlationId Null), (''eventType'', Str eventType),
                  (''eventData'', (case eventData of None \<Rightarrow> Undefined | Some d \<Rightarrow> d)),
                  (''createdAt'', Num now)]
      in case dyn_put item
                (Some (cond_and (attribute_not_exists ''PK'') (attribute_not_exists ''SK''))) b of
           (Inl err, b') \<Rightarrow>
             (Inl (WorkflowAPIError (''Event '' @ eventId @ '' could not be created'') 409), b')
         | (Inr u, b') \<Rightarrow> (Inr (compact item), b'))"

definition events_list_query :: "string \<Rightarrow> pagination option \<Rightarrow> query" where
  "events_list_query runId pg =
     \<lparr>IndexName = None, KeyCondition = (Direct ''PK'', Str (runPK runId)),
      RangeCondition = (case if_truthy (cursor_of pg) of
                          None \<Rightarrow> None
                        | Some c \<Rightarrow>
                            Some (''SK'', (if sortOrder_of pg = desc then Lt else Gt), Str (eventSK c))),
      ScanIndexForward = (sortOrder_of pg = asc), Limit = limit_or pg 100 + 1\<rparr>"

definition events_list :: "string \<Rightarrow> pagination option \<Rightarrow> backend \<Rightarrow> (error + page) \<times> backend" where
  "events_list runId pg b =
     (let limit = limit_or pg 100 in
      case dyn_query (events_list_query runId pg) b of
        (Inl f, b') \<Rightarrow> (Inl (Rejected f), b')
      | (Inr Items, b') \<Rightarrow>
          (let values = take limit (filter (is_entity ''Event'') Items)
           in (Inr \<lparr>data = map compact values, hasMore = (limit < length Items),
                    next_cursor = last_attr values ''eventId''\<rparr>, b')))"

definition events_listByCorrelationId_query ::
  "string \<Rightarrow> pagination option \<Rightarrow> env \<Rightarrow> query" where
  "events_listByCorrelationId_query correlationId pg e =
     \<lparr>IndexName = Some ''correlationIndex'', KeyCondition = (Direct ''correlationId'', Str correlationId),
      RangeCondition = (case if_truthy (cursor_of pg) of
                          None \<Rightarrow> None
                        | Some c \<Rightarrow>
                            Some (''createdAt'', (if sortOrder_of pg = desc then Lt else Gt),
                                  Number (StringToNumber e) c)),
      ScanIndexForward = (sortOrder_of pg = asc), Limit = limit_or pg 100 + 1\<rparr>"

definition events_listByCorrelationId ::
  "string \<Rightarrow> pagination option \<Rightarrow> env \<Rightarrow> backend \<Rightarrow> (error + page) \<times> backend" where
  "events_listByCorrelationId correlationId pg e b =
     (let limit = limit_or pg 100 in
      case dyn_query (events_listByCorrelationId_query correlationId pg e) b of
        (Inl f, b') \<Rightarrow> (Inl (Rejected f), b')
      | (Inr Items, b') \<Rightarrow>
          (let values = take limit (filter (is_entity ''Event'') Items)
           in (Inr \<lparr>data = map compact values, hasMore = (limit < length Items),
                    next_cursor = last_attr values ''createdAt''\<rparr>, b')))"

subsection \<open>The four public stores and the logging wrapper\<close>

text \<open>
  A store is an object of methods; a call names the method and carries its arguments.
  \<^verbatim>\<open>loggerProxy\<close> answers every property with a function that prints the call with
  \<^verbatim>\<open>JSON.stringify(args)\<close>, awaits the method of the wrapped store, prints the result
  with \<^verbatim>\<open>JSON.stringify(result)\<close> and returns it. When the first
  \<^verbatim>\<open>JSON.stringify\<close> throws, the method is never called; when the method throws, the
  second line is not printed and the error goes on to the caller; when the second
  \<^verbatim>\<open>JSON.stringify\<close> throws, the method has run and the caller gets the
  \<open>TypeError\<close>. The console is the list of the lines printed, each kept as the data it
  is rendered from. The \<open>args\<close> of a call are its arguments as the values the method
  receives, a result's value is the object the method returns.
\<close>

datatype result = Entity item | Page page

definition entity :: "(error + item) \<times> backend \<Rightarrow> (error + result) \<times> backend" where
  "entity r = (case r of (Inl err, b) \<Rightarrow> (Inl err, b) | (Inr x, b) \<Rightarrow> (Inr (Entity x), b))"

definition paged :: "(error + page) \<times> backend \<Rightarrow> (error + result) \<times> backend" where
  "paged r = (case r of (Inl err, b) \<Rightarrow> (Inl err, b) | (Inr x, b) \<Rightarrow> (Inr (Page x), b))"

datatype runs_call =
    Runs_get string
  | Runs_cancel string
  | Runs_pause string
  | Runs_resume string
  | Runs_list "pagination option" "string option" "string option"
  | Runs_create string jsval jsval string
  | Runs_update string item

datatype steps_call =
    Steps_create string "string option" string jsval
  | Steps_get string string
  | Steps_update string string item
  | Steps_list string "pagination option"

datatype hooks_call =
    Hooks_get string
  | Hooks_create string string string
  | Hooks_getByToken string
  | Hooks_list "string option" "pagination option"
  | Hooks_dispose string

datatype events_call =
    Events_create string jsval string "jsval option"
  | Events_list string "pagination option"
  | Events_listByCorrelationId string "pagination option"

fun createRunsStorage :: "runs_call \<Rightarrow> env \<Rightarrow> backend \<Rightarrow> (error + result) \<times> backend" where
  "createRunsStorage (Runs_get rid) e b = entity (runs_get rid b)"
| "createRunsStorage (Runs_cancel rid) e b = entity (runs_cancel rid e b)"
| "createRunsStorage (Runs_pause rid) e b = entity (runs_pause rid e b)"
| "createRunsStorage (Runs_resume rid) e b = entity (runs_resume rid e b)"
| "createRunsStorage (Runs_list pg wfn st) e b = paged (runs_list pg wfn st e b)"
| "createRunsStorage (Runs_create wfn inp ctx dep) e b = entity (runs_create wfn inp ctx dep e b)"
| "createRunsStorage (Runs_update rid partial) e b = entity (runs_update rid partial e b)"

fun createStepsStorage :: "steps_call \<Rightarrow> env \<Rightarrow> backend \<Rightarrow> (error + result) \<times> backend" where
  "createStepsStorage (Steps_create runId sid nm inp) e b = entity (steps_create runId sid nm inp e b)"
| "createStepsStorage (Steps_get runId sid) e b = entity (steps_get runId sid b)"
| "createStepsStorage (Steps_update runId sid partial) e b = entity (steps_update runId sid partial e b)"
| "createStepsStorage (Steps_list runId pg) e b = paged (steps_list runId pg b)"

fun createHooksStorage :: "hooks_call \<Rightarrow> env \<Rightarrow> backend \<Rightarrow> (error + result) \<times> backend" where
  "createHooksStorage (Hooks_get hid) e b = entity (hooks_get hid b)"
| "createHooksStorage (Hooks_create runId hid tok) e b = entity (hooks_create runId hid tok e b)"
| "createHooksStorage (Hooks_getByToken tok) e b = entity (hooks_getByToken tok b)"
| "createHooksStorage (Hooks_list runId pg) e b = paged (hooks_list runId pg e b)"
| "createHooksStorage (Hooks_dispose hid) e b = entity (hooks_dispose hid b)"

fun createEventsStorage :: "events_call \<Rightarrow> env \<Rightarrow> backend \<Rightarrow> (error + result) \<times> backend" where
  "createEventsStorage (Events_create runId cid ty d) e b = entity (events_create runId cid ty d e b)"
| "createEventsStorage (Events_list runId pg) e b = paged (events_list runId pg b)"
| "createEventsStorage (Events_listByCorrelationId cid pg) e b =
     paged (events_listByCorrelationId cid pg e b)"

definition field :: "string \<Rightarrow> jsval option \<Rightarrow> (string \<times> jsval) list" where
  "field k v = (case v of None \<Rightarrow> [] | Some x \<Rightarrow> [(k, x)])"

definition pagination_value :: "pagination \<Rightarrow> jsval" where
  "pagination_value p =
     Obj (field ''limit'' (map_option (\<lambda>n. Num (int n)) (limit p))
          @ field ''cursor'' (map_option Str (cursor p))
          @ field ''sortOrder''
              (map_option (\<lambda>so. Str (case so of asc \<Rightarrow> ''asc'' | desc \<Rightarrow> ''desc'')) (sortOrder p)))"

fun runs_args :: "runs_call \<Rightarrow> jsval list" where
  "runs_args (Runs_get rid) = [Str rid]"
| "runs_args (Runs_cancel rid) = [Str rid]"
| "runs_args (Runs_pause rid) = [Str rid]"
| "runs_args (Runs_resume rid) = [Str rid]"
| "runs_args (Runs_list pg wfn st) =
     [Obj (field ''pagination'' (map_option pagination_value pg)
           @ field ''workflowName'' (map_option Str wfn) @ field ''status'' (map_option Str st))]"
| "runs_args (Runs_create wfn inp ctx dep) =
     [Obj [(''workflowName'', Str wfn), (''input'', inp), (''executionContext'', ctx),
           (''deploymentId'', Str dep)]]"
| "runs_args (Runs_update rid partial) = [Str rid, Obj partial]"

fun steps_args :: "steps_call \<Rightarrow> jsval list" where
  "steps_args (Steps_create runId sid nm inp) =
     [Str runId, Obj (field ''stepId'' (map_option Str sid) @ [(''stepName'', Str nm), (''input'', inp)])]"
| "steps_args (Steps_get runId sid) = [Str runId, Str sid]"
| "steps_args (Steps_update runId sid partial) = [Str runId, Str sid, Obj partial]"
| "steps_args (Steps_list runId pg) =
     [Obj ((''runId'', Str runId) # field ''pagination'' (map_option pagination_value pg))]"

fun hooks_args :: "hooks_call \<Rightarrow> jsval list" where
  "hooks_args (Hooks_get hid) = [Str hid]"
| "hooks_args (Hooks_create runId hid tok) = [Str runId, Obj [(''hookId'', Str hid), (''token'', Str tok)]]"
| "hooks_args (Hooks_getByToken tok) = [Str tok]"
| "hooks_args (Hooks_list runId pg) =
     [Obj (field ''runId'' (map_option Str runId) @ field ''pagination'' (map_option pagination_value pg))]"
| "hooks_args (Hooks_dispose hid) = [Str hid]"

fun events_args :: "events_call \<Rightarrow> jsval list" where
  "events_args (Events_create runId cid ty d) =
     [Str runId, Obj ([(''correlationId'', cid), (''eventType'', Str ty)] @ field ''eventData'' d)]"
| "events_args (Events_list runId pg) =
     [Obj ((''runId'', Str runId) # field ''pagination'' (map_option pagination_value pg))]"
| "events_args (Events_listByCorrelationId cid pg) =
     [Obj ((''correlationId'', Str cid) # field ''pagination'' (map_option pagination_value pg))]"

fun result_value :: "result \<Rightarrow> jsval" where
  "result_value (Entity x) = Obj x"
| "result_value (Page pg) =
     Obj [(''data'', Arr (map Obj (data pg))), (''hasMore'', Bool (hasMore pg)),
          (''cursor'', next_cursor pg)]"

datatype 'c console_line = Calling string 'c | Returned string 'c result

definition loggerProxy ::
  "('c \<Rightarrow> env \<Rightarrow> backend \<Rightarrow> (error + result) \<times> backend) \<Rightarrow> ('c \<Rightarrow> jsval list) \<Rightarrow> string
    \<Rightarrow> 'c \<Rightarrow> env \<Rightarrow> backend \<times> 'c console_line list
    \<Rightarrow> (error + result) \<times> backend \<times> 'c console_line list" where
  "loggerProxy obj args prefix call e w =
     (case w of
        (b, console) \<Rightarrow>
          (if \<not> stringifies (Arr (args call))
           then (Inl (TypeError ''Do not know how to serialize a BigInt''), b, console)
           else
             (let console1 = console @ [Calling prefix call] in
              case obj call e b of
                (Inl err, b') \<Rightarrow> (Inl err, b', console1)
              | (Inr res, b') \<Rightarrow>
                  (if \<not> stringifies (result_value res)
                   then (Inl (TypeError ''Do not know how to serialize a BigInt''), b', console1)
                   else (Inr res, b', console1 @ [Returned prefix call res])))))"

datatype storage = Storage
  (events: "events_call \<Rightarrow> env \<Rightarrow> backend \<times> events_call console_line list
              \<Rightarrow> (error + result) \<times> backend \<times> events_call console_line list")
  (hooks: "hooks_call \<Rightarrow> env \<Rightarrow> backend \<times> hooks_call console_line list
              \<Rightarrow> (error + result) \<times> backend \<times> hooks_call console_line list")
  (runs: "runs_call \<Rightarrow> env \<Rightarrow> backend \<times> runs_call console_line list
              \<Rightarrow> (error + result) \<times> backend \<times> runs_call console_line list")
  (steps: "steps_call \<Rightarrow> env \<Rightarrow> backend \<times> steps_call console_line list
              \<Rightarrow> (error + result) \<times> backend \<times> steps_call console_line list")

definition createStorage :: storage where
  "createStorage =
     Storage (loggerProxy createEventsStorage events_args ''events'')
             (loggerProxy createHooksStorage hooks_args ''hooks'')
             (loggerProxy createRunsStorage runs_args ''runs'')
             (loggerProxy createStepsStorage steps_args ''steps'')"

section \<open>Vocabulary of the statements\<close>

text \<open>The record now stored at a key, and one of its attributes.\<close>

definition stored :: "backend \<Rightarrow> string \<times> string \<Rightarrow> item option" where
  "stored b Key = find (has_key Key) (table b)"

definition stored_attr :: "backend \<Rightarrow> string \<times> string \<Rightarrow> string \<Rightarrow> jsval option" where
  "stored_attr b Key a = (case stored b Key of None \<Rightarrow> None | Some it \<Rightarrow> map_of it a)"

text \<open>Surroundings and tables for the concrete instances below.\<close>

definition env_at :: "int \<Rightarrow> string \<Rightarrow> env" where
  "env_at t u = \<lparr>nowMs = (\<lambda>i. t), ulid = u, StringToNumber = (\<lambda>s. NaN)\<rparr>"

definition run_r1 :: item where
  "run_r1 = [(''PK'', Str ''RUN#r1''), (''SK'', Str ''RUN#METADATA''), (''entityType'', Str ''Run''),
             (''runId'', Str ''r1''), (''workflowName'', Str ''demo''), (''input'', Arr []),
             (''executionContext'', Null), (''deploymentId'', Str ''d1''),
             (''status'', Str ''pending''), (''createdAt'', Num 1), (''updatedAt'', Num 1)]"

definition step_s1 :: item where
  "step_s1 = [(''PK'', Str ''RUN#r1''), (''SK'', Str ''STEP#s1''), (''entityType'', Str ''Step''),
              (''runId'', Str ''r1''), (''stepId'', Str ''s1''), (''stepName'', Str ''fetch''),
              (''input'', Arr []), (''status'', Str ''pending''), (''attempt'', Num 1),
              (''createdAt'', Num 2), (''updatedAt'', Num 2)]"

definition hook_h1 :: item where
  "hook_h1 = [(''PK'', Str ''RUN#r1''), (''SK'', Str ''HOOK#h1''), (''entityType'', Str ''Hook''),
              (''runId'', Str ''r1''), (''hookId'', Str ''h1''), (''token'', Str ''t1''),
              (''ownerId'', Str []), (''projectId'', Str []), (''environment'', Str []),
              (''createdAt'', Num 3)]"

definition b_r1 :: backend where
  "b_r1 = \<lparr>table = [run_r1, step_s1, hook_h1], faults = []\<rparr>"

definition b_paused :: backend where
  "b_paused = \<lparr>table = [AList.update ''status'' (Str ''paused'') run_r1], faults = []\<rparr>"




definition created_run :: item where
  "created_run = [(''PK'', Str ''RUN#wrun_A''), (''SK'', Str ''RUN#METADATA''),
                  (''entityType'', Str ''Run''), (''runId'', Str ''wrun_A''),
                  (''workflowName'', Str ''demo''), (''input'', Arr []),
                  (''executionContext'', Undefined), (''deploymentId'', Str ''d1''),
                  (''status'', Str ''pending''), (''createdAt'', Date 5), (''updatedAt'', Date 5)]"






definition big_output :: item where
  "big_output = [(''output'', BigInt 9007199254740993)]"

subsection \<open>The list calls, side by side\<close>

text \<open>
  The five list operations and, for each, what the pagination contract speaks of: the
  query it sends, its page size, the records it keeps and the attribute its cursor is
  taken from.
\<close>

datatype list_call =
    ListRuns "pagination option" "string option" "string option"
  | ListSteps string "pagination option"
  | ListHooks "string option" "pagination option"
  | ListEvents string "pagination option"
  | ListEventsByCorrelationId string "pagination option"



fun list_pagination :: "list_call \<Rightarrow> pagination option" where
  "list_pagination (ListRuns pg wfn st) = pg"
| "list_pagination (ListSteps runId pg) = pg"
| "list_pagination (ListHooks runId pg) = pg"
| "list_pagination (ListEvents runId pg) = pg"
| "list_pagination (ListEventsByCorrelationId cid pg) = pg"




subsection \<open>Pages, and the call that follows a page\<close>

text \<open>
  The records an answer of the backend is ordered by: \<open>order_key q it\<close> is the value of
  the sort attribute of the table or index that \<open>q\<close> reads, and \<open>before q x y\<close> says
  that \<open>x\<close> comes strictly before \<open>y\<close> in the direction \<open>q\<close> asks for
  (\<open>ScanIndexForward\<close>).
\<close>

definition order_key :: "query \<Rightarrow> item \<Rightarrow> jsval" where
  "order_key q it = (case sort_attribute (IndexName q) of None \<Rightarrow> Undefined | Some a \<Rightarrow> getprop it a)"

definition before :: "query \<Rightarrow> item \<Rightarrow> item \<Rightarrow> bool" where
  "before q x y =
     (if ScanIndexForward q then val_less (order_key q x) (order_key q y)
      else val_less (order_key q y) (order_key q x))"















subsection \<open>Calls through the logging wrapper\<close>

text \<open>
  A call whose argument list \<^verbatim>\<open>JSON.stringify\<close> accepts and whose result, when the
  wrapped method returns one, it accepts as well.
\<close>

definition serializable ::
  "('c \<Rightarrow> env \<Rightarrow> backend \<Rightarrow> (error + result) \<times> backend) \<Rightarrow> ('c \<Rightarrow> jsval list)
    \<Rightarrow> 'c \<Rightarrow> env \<Rightarrow> backend \<Rightarrow> bool" where
  "serializable obj args call e b \<longleftrightarrow>
     stringifies (Arr (args call))
     \<and> (case fst (obj call e b) of Inl err \<Rightarrow> True | Inr res \<Rightarrow> stringifies (result_value res))"

section \<open>Facts about the backend\<close>

lemmas eval_defs = dyn_get_def dyn_put_def dyn_update_def dyn_query_def dyn_delete_def attempt_def
  holds_opt_def has_key_def same_key_def apply_set_def compact_def is_timestamp_key_def
  runPK_def runMetaSK_def stepSK_def hookSK_def eventSK_def getprop_def
  matches_def indexed_def in_range_def sort_attribute_def ordered_def sort_by_def valid_query_def
  reserved_word_def env_at_def stored_def stored_attr_def Let_def

lemma attempt_ok: "faults b = [] \<Longrightarrow> attempt b = (False, b)"
  by (simp add: attempt_def)

lemma attempt_table: "table (snd (attempt b)) = table b"
  by (simp add: attempt_def split: list.splits)

lemma dyn_get_ok: "faults b = [] \<Longrightarrow> dyn_get Key b = (Inr (stored b Key), b)"
  by (simp add: dyn_get_def attempt_ok stored_def)

lemma stored_has_key: "stored b Key = Some it \<Longrightarrow> has_key Key it"
  by (auto simp: stored_def find_Some_iff)

lemma stored_after_write:
  "has_key Key new \<Longrightarrow> stored (b\<lparr>table := new # rest\<rparr>) Key = Some new"
  by (simp add: stored_def)

lemma map_of_apply_set: "map_of (apply_set it sets) = map_of it ++ map_of (rev sets)"
  unfolding apply_set_def
  by (induction sets arbitrary: it)
     (auto simp: AList.update_conv' map_add_def fun_eq_iff split: option.splits)

lemma has_key_apply_set:
  assumes "has_key Key it" "map_of (rev sets) ''PK'' = None" "map_of (rev sets) ''SK'' = None"
  shows "has_key Key (apply_set it sets)"
  using assms by (simp add: has_key_def map_of_apply_set map_add_def)

lemma dyn_update_ok:
  assumes "faults b = []" "stored b Key = Some cur"
  shows "dyn_update Key sets None b =
           (Inr (Some (apply_set cur sets)),
            b\<lparr>table := apply_set cur sets # filter (\<lambda>it. \<not> has_key Key it) (table b)\<rparr>)"
  using assms by (simp add: dyn_update_def attempt_ok holds_opt_def stored_def Let_def)

lemma map_of_rev_copied: "k \<notin> set ks \<Longrightarrow> map_of (rev (copied ks partial)) k = None"
proof -
  assume "k \<notin> set ks"
  moreover have "fst ` set (copied ks partial) \<subseteq> set ks"
    by (auto simp: copied_def split: if_splits)
  ultimately have "k \<notin> fst ` set (rev (copied ks partial))" by auto
  then show ?thesis by (simp add: map_of_eq_None_iff)
qed

lemma dyn_put_Inr:
  assumes "dyn_put Item c b = (Inr u, b')"
  shows "table b' = Item # filter (\<lambda>it. \<not> same_key Item it) (table b)"
    and "faults b' = tl (faults b)"
  using assms
  by (auto simp: dyn_put_def attempt_def split: list.splits bool.splits if_splits)

lemma dyn_put_Inl:
  assumes "dyn_put Item c b = (Inl err, b')"
  shows "table b' = table b"
  using assms
  by (auto simp: dyn_put_def attempt_def split: list.splits bool.splits if_splits)

lemma dyn_put_occupied:
  assumes "find (same_key Item) (table b) = Some old" "map_of old a \<noteq> None"
  shows "\<exists>err. fst (dyn_put Item (Some (cond_and (attribute_not_exists a) c)) b) = Inl err"
    and "\<exists>err. fst (dyn_put Item (Some (attribute_not_exists a)) b) = Inl err"
  using assms
  by (auto simp: dyn_put_def attempt_def holds_opt_def split: list.splits bool.splits)

section \<open>What an update writes\<close>

lemma copied_none: "\<forall>k\<in>set ks. getprop partial k = Undefined \<Longrightarrow> copied ks partial = []"
  by (induction ks) (simp_all add: copied_def)

lemma runs_update_effect:
  assumes f: "faults b = []" and s: "stored b (runPK rid, runMetaSK) = Some cur"
  shows "\<exists>new b'. runs_update rid partial e b = (Inr (compact new), b')
           \<and> faults b' = [] \<and> stored b' (runPK rid, runMetaSK) = Some new
           \<and> map_of new ''startedAt'' =
               (if getprop partial ''status'' = Str ''running'' \<and> \<not> truthy (getprop cur ''startedAt'')
                then Some (Num (nowMs e 0)) else map_of cur ''startedAt'')
           \<and> map_of new ''completedAt'' =
               (if getprop partial ''status'' \<in> {Str ''completed'', Str ''failed'', Str ''cancelled''}
                then Some (Num (nowMs e 0)) else map_of cur ''completedAt'')
           \<and> map_of new ''updatedAt'' = Some (Num (nowMs e 0))"
proof -
  define sets where "sets =
       copied [''status'', ''output'', ''error'', ''errorCode'', ''deploymentId'',
               ''executionContext''] partial
       @ (if getprop partial ''status'' = Str ''running'' \<and> \<not> truthy (getprop cur ''startedAt'')
          then [(''startedAt'', Num (nowMs e 0))] else [])
       @ (if getprop partial ''status'' \<in> set [Str ''completed'', Str ''failed'', Str ''cancelled'']
          then [(''completedAt'', Num (nowMs e 0))] else [])
       @ [(''updatedAt'', Num (nowMs e 0))]"
  define new where "new = apply_set cur sets"
  define b' where "b' = b\<lparr>table := new # filter (\<lambda>it. \<not> has_key (runPK rid, runMetaSK) it) (table b)\<rparr>"
  have ne: "length sets \<noteq> 0" by (simp add: sets_def)
  have run: "runs_update rid partial e b = (Inr (compact new), b')"
    unfolding new_def b'_def sets_def
    by (simp add: runs_update_def dyn_get_ok[OF f] s dyn_update_ok[OF f s] Let_def)
  have none: "map_of (rev sets) ''PK'' = None" "map_of (rev sets) ''SK'' = None"
    by (simp_all add: sets_def map_add_def map_of_rev_copied)
  have hk: "has_key (runPK rid, runMetaSK) new"
    unfolding new_def by (rule has_key_apply_set[OF stored_has_key[OF s] none])
  have st: "stored b' (runPK rid, runMetaSK) = Some new"
    unfolding b'_def by (rule stored_after_write[OF hk])
  have a1: "map_of new ''startedAt'' =
               (if getprop partial ''status'' = Str ''running'' \<and> \<not> truthy (getprop cur ''startedAt'')
                then Some (Num (nowMs e 0)) else map_of cur ''startedAt'')"
    by (simp add: new_def map_of_apply_set sets_def map_add_def map_of_rev_copied)
  have a2: "map_of new ''completedAt'' =
               (if getprop partial ''status'' \<in> {Str ''completed'', Str ''failed'', Str ''cancelled''}
                then Some (Num (nowMs e 0)) else map_of cur ''completedAt'')"
    by (simp add: new_def map_of_apply_set sets_def map_add_def map_of_rev_copied)
  have a3: "map_of new ''updatedAt'' = Some (Num (nowMs e 0))"
    by (simp add: new_def map_of_apply_set sets_def map_add_def map_of_rev_copied)
  have "faults b' = []" by (simp add: b'_def f)
  with run st a1 a2 a3 show ?thesis by blast
qed


lemma steps_update_effect:
  assumes f: "faults b = []" and s: "stored b (runPK runId, stepSK stepId) = Some cur"
  shows "\<exists>new b'. steps_update runId stepId partial e b = (Inr (compact new), b')
           \<and> faults b' = [] \<and> stored b' (runPK runId, stepSK stepId) = Some new
           \<and> map_of new ''startedAt'' =
               (if getprop partial ''status'' = Str ''running'' \<and> \<not> truthy (getprop cur ''startedAt'')
                then Some (Num (nowMs e 0)) else map_of cur ''startedAt'')
           \<and> map_of new ''completedAt'' =
               (if getprop partial ''status'' \<in> {Str ''completed'', Str ''failed''}
                then Some (Num (nowMs e 0)) else map_of cur ''completedAt'')
           \<and> map_of new ''updatedAt'' = Some (Num (nowMs e 0))"
proof -
  define sets where "sets =
       copied [''status'', ''output'', ''error'', ''errorCode'', ''attempt''] partial
       @ (if getprop partial ''status'' = Str ''running'' \<and> \<not> truthy (getprop cur ''startedAt'')
          then [(''startedAt'', Num (nowMs e 0))] else [])
       @ (if getprop partial ''status'' \<in> set [Str ''completed'', Str ''failed'']
          then [(''completedAt'', Num (nowMs e 0))] else [])
       @ [(''updatedAt'', Num (nowMs e 0))]"
  define new where "new = apply_set cur sets"
  define b' where "b' = b\<lparr>table := new # filter (\<lambda>it. \<not> has_key (runPK runId, stepSK stepId) it) (table b)\<rparr>"
  have run: "steps_update runId stepId partial e b = (Inr (compact new), b')"
    unfolding new_def b'_def sets_def
    by (simp add: steps_update_def dyn_get_ok[OF f] s dyn_update_ok[OF f s] Let_def)
  have none: "map_of (rev sets) ''PK'' = None" "map_of (rev sets) ''SK'' = None"
    by (simp_all add: sets_def map_add_def map_of_rev_copied)
  have hk: "has_key (runPK runId, stepSK stepId) new"
    unfolding new_def by (rule has_key_apply_set[OF stored_has_key[OF s] none])
  have st: "stored b' (runPK runId, stepSK stepId) = Some new"
    unfolding b'_def by (rule stored_after_write[OF hk])
  have a1: "map_of new ''startedAt'' =
               (if getprop partial ''status'' = Str ''running'' \<and> \<not> truthy (getprop cur ''startedAt'')
                then Some (Num (nowMs e 0)) else map_of cur ''startedAt'')"
    by (simp add: new_def map_of_apply_set sets_def map_add_def map_of_rev_copied)
  have a2: "map_of new ''completedAt'' =
               (if getprop partial ''status'' \<in> {Str ''completed'', Str ''failed''}
                then Some (Num (nowMs e 0)) else map_of cur ''completedAt'')"
    by (simp add: new_def map_of_apply_set sets_def map_add_def map_of_rev_copied)
  have a3: "map_of new ''updatedAt'' = Some (Num (nowMs e 0))"
    by (simp add: new_def map_of_apply_set sets_def map_add_def map_of_rev_copied)
  have "faults b' = []" by (simp add: b'_def f)
  with run st a1 a2 a3 show ?thesis by blast
qed

section \<open>Facts about queries and about the projection\<close>





lemma matches_in_range: "matches q it \<Longrightarrow> in_range (RangeCondition q) it"
  by (simp add: matches_def)



lemma fst_compact_field: "fst (compact_field kv) = fst kv"
  by (cases kv rule: compact_field.cases) (simp_all)

lemma snd_compact_field_not_Null: "snd (compact_field kv) \<noteq> Null"
  by (cases kv rule: compact_field.cases) (simp_all)

lemma compact_no_null: "Null \<notin> snd ` set (compact it)"
proof
  assume "Null \<in> snd ` set (compact it)"
  then obtain kv where "kv \<in> set it" "snd (compact_field kv) = Null"
    by (auto simp: compact_def)
  then show False using snd_compact_field_not_Null by blast
qed

lemma map_of_compact:
  "map_of (compact it) k = map_option (\<lambda>v. snd (compact_field (k, v))) (map_of it k)"
proof (induction it)
  case Nil
  show ?case by (simp add: compact_def)
next
  case (Cons kv it)
  obtain k' v where kv: "kv = (k', v)" by (cases kv)
  obtain w where cf: "compact_field (k', v) = (k', w)"
    using fst_compact_field[of "(k', v)"] by (cases "compact_field (k', v)") simp
  with Cons show ?case by (simp add: compact_def kv)
qed

lemma faults_after_put: "faults b = [] \<Longrightarrow> dyn_put Item c b = (r, b') \<Longrightarrow> faults b' = []"
  by (auto simp: dyn_put_def attempt_def split: if_splits)

lemma filter_singleton:
  "P x \<Longrightarrow> \<forall>y\<in>set xs. \<not> P y \<Longrightarrow> filter P (x # filter Q xs) = [x]"
  by (induction xs) auto

lemma same_key_literal:
  "same_key ((''PK'', Str pk) # (''SK'', Str sk) # rest) = has_key (pk, sk)"
  by (auto simp: same_key_def has_key_def fun_eq_iff)

section \<open>The order of keys and of answers\<close>

subsection \<open>The order of keys\<close>


lemma str_less_trans: "str_less a b \<Longrightarrow> str_less b c \<Longrightarrow> str_less a c"
proof (induction a b arbitrary: c rule: str_less.induct)
  case 1 then show ?case by simp
next
  case (2 y ys) then show ?case by (cases c) auto
next
  case (3 x xs) then show ?case by simp
next
  case (4 x xs y ys)
  then show ?case by (cases c) (auto split: if_splits)
qed



lemma val_lessD:
  "val_less a b \<Longrightarrow>
     (\<exists>x y. a = Num x \<and> b = Num y \<and> x < y) \<or> (\<exists>x y. a = Str x \<and> b = Str y \<and> str_less x y)"
  by (induction a b rule: val_less.induct) simp_all

lemma val_less_trans: "val_less a b \<Longrightarrow> val_less b c \<Longrightarrow> val_less a c"
  by (auto dest!: val_lessD intro: str_less_trans)





subsection \<open>The order of an answer\<close>





















section \<open>Pages of a listing and the call that follows\<close>









lemma before_trans: "before q x y \<Longrightarrow> before q y z \<Longrightarrow> before q x z"
  by (auto simp: before_def intro: val_less_trans split: if_splits)












subsection \<open>Kept records that come first\<close>











subsection \<open>Evaluation on the concrete tables\<close>



section \<open>Two observations on the side\<close>

text \<open>
  On a run that is stored, \<^verbatim>\<open>cancel\<close> and \<^verbatim>\<open>pause\<close> write the status and the
  instants whatever the status was.
\<close>

lemma cancel_and_pause_of_stored_run:
  assumes f: "faults b = []" and s: "stored b (runPK rid, runMetaSK) = Some cur"
  shows "\<exists>new b'. runs_cancel rid e b = (Inr (compact new), b')
            \<and> stored b' (runPK rid, runMetaSK) = Some new
            \<and> map_of new ''status'' = Some (Str ''cancelled'')
            \<and> map_of new ''completedAt'' = Some (Num (nowMs e 0))
            \<and> map_of new ''updatedAt'' = Some (Num (nowMs e 1))"
    and "\<exists>new b'. runs_pause rid e b = (Inr (compact new), b')
            \<and> stored b' (runPK rid, runMetaSK) = Some new
            \<and> map_of new ''status'' = Some (Str ''paused'')
            \<and> map_of new ''updatedAt'' = Some (Num (nowMs e 0))"
proof -
  define sets where "sets = [(''status'', Str ''cancelled''), (''completedAt'', Num (nowMs e 0)),
                             (''updatedAt'', Num (nowMs e 1))]"
  have hk: "has_key (runPK rid, runMetaSK) (apply_set cur sets)"
    by (rule has_key_apply_set[OF stored_has_key[OF s]]) (simp_all add: sets_def)
  show "\<exists>new b'. runs_cancel rid e b = (Inr (compact new), b')
            \<and> stored b' (runPK rid, runMetaSK) = Some new
            \<and> map_of new ''status'' = Some (Str ''cancelled'')
            \<and> map_of new ''completedAt'' = Some (Num (nowMs e 0))
            \<and> map_of new ''updatedAt'' = Some (Num (nowMs e 1))"
    using stored_after_write[OF hk[unfolded sets_def]]
    by (simp add: runs_cancel_def dyn_update_ok[OF f s] map_of_apply_set)
next
  define sets where "sets = [(''status'', Str ''paused''), (''updatedAt'', Num (nowMs e 0))]"
  have hk: "has_key (runPK rid, runMetaSK) (apply_set cur sets)"
    by (rule has_key_apply_set[OF stored_has_key[OF s]]) (simp_all add: sets_def)
  show "\<exists>new b'. runs_pause rid e b = (Inr (compact new), b')
            \<and> stored b' (runPK rid, runMetaSK) = Some new
            \<and> map_of new ''status'' = Some (Str ''paused'')
            \<and> map_of new ''updatedAt'' = Some (Num (nowMs e 0))"
    using stored_after_write[OF hk[unfolded sets_def]]
    by (simp add: runs_pause_def dyn_update_ok[OF f s] map_of_apply_set)
qed

text \<open>
  \<^verbatim>\<open>runs.list\<close> by status alone names the attribute \<open>status\<close> in its key
  condition directly, and the service refuses the expression: on an answering backend
  the call fails with the rejection, whatever the table holds.
\<close>

lemma runs_list_by_status_is_rejected:
  assumes "faults b = []" "if_truthy workflowName = None" "if_truthy status = Some st"
  shows "runs_list pg workflowName status e b = (Inl (Rejected ValidationException), b)"
  using assms
  by (simp add: runs_list_def runs_list_query_def dyn_query_def attempt_ok valid_query_def
      reserved_word_def Let_def)

section \<open>The claims\<close>




text \<open>
  C2. \<^verbatim>\<open>runs.resume\<close> sets the status to \<open>running\<close> only when the run exists and its
  status is exactly \<open>paused\<close>. On an answering backend a paused run is resumed: the call
  returns and the stored status is \<open>running\<close>. In every other case (no such run, or a
  run whose stored status is anything else) the call fails with the 404
  \<open>Paused run not found\<close> and the table is left as it was.
\<close>

theorem runs_resume_only_from_paused:
  "(faults b = [] \<and> stored_attr b (runPK rid, runMetaSK) ''status'' = Some (Str ''paused'') \<longrightarrow>
      (\<exists>ent. fst (runs_resume rid e b) = Inr ent)
      \<and> stored_attr (snd (runs_resume rid e b)) (runPK rid, runMetaSK) ''status'' = Some (Str ''running''))
   \<and> (stored_attr b (runPK rid, runMetaSK) ''status'' \<noteq> Some (Str ''paused'') \<longrightarrow>
      fst (runs_resume rid e b) = Inl (WorkflowAPIError (''Paused run not found: '' @ rid) 404)
      \<and> table (snd (runs_resume rid e b)) = table b)"
proof (intro conjI impI)
  assume a: "faults b = [] \<and> stored_attr b (runPK rid, runMetaSK) ''status'' = Some (Str ''paused'')"
  then obtain cur where s: "stored b (runPK rid, runMetaSK) = Some cur"
    and p: "map_of cur ''status'' = Some (Str ''paused'')"
    by (auto simp: stored_attr_def split: option.splits)
  define new where "new = apply_set cur [(''status'', Str ''running''), (''updatedAt'', Num (nowMs e 0))]"
  have hk: "has_key (runPK rid, runMetaSK) new"
    unfolding new_def by (rule has_key_apply_set[OF stored_has_key[OF s]]) simp_all
  have r: "runs_resume rid e b = (Inr (compact new),
             b\<lparr>table := new # filter (\<lambda>it. \<not> has_key (runPK rid, runMetaSK) it) (table b)\<rparr>)"
    using a s p unfolding new_def
    by (simp add: runs_resume_def dyn_update_def attempt_ok holds_opt_def stored_def Let_def)
  show "\<exists>ent. fst (runs_resume rid e b) = Inr ent" by (simp add: r)
  show "stored_attr (snd (runs_resume rid e b)) (runPK rid, runMetaSK) ''status'' = Some (Str ''running'')"
    by (simp add: r stored_attr_def stored_after_write[OF hk]) (simp add: new_def map_of_apply_set)
next
  assume n: "stored_attr b (runPK rid, runMetaSK) ''status'' \<noteq> Some (Str ''paused'')"
  then have nh: "\<not> holds_opt (Some (attribute_equals ''status'' (Str ''paused'')))
                     (find (has_key (runPK rid, runMetaSK)) (table (snd (attempt b))))"
    by (auto simp: stored_attr_def stored_def holds_opt_def attempt_table split: option.splits)
  obtain f b0 where at: "attempt b = (f, b0)" by (cases "attempt b")
  with nh have nh': "\<not> holds_opt (Some (attribute_equals ''status'' (Str ''paused'')))
                     (find (has_key (runPK rid, runMetaSK)) (table b0))" by simp
  from at have tb: "table b0 = table b" using attempt_table[of b] by simp
  show "fst (runs_resume rid e b) = Inl (WorkflowAPIError (''Paused run not found: '' @ rid) 404)"
    using nh' by (cases f) (simp_all add: runs_resume_def dyn_update_def at Let_def)
  show "table (snd (runs_resume rid e b)) = table b"
    using nh' tb by (cases f) (simp_all add: runs_resume_def dyn_update_def at Let_def)
qed

theorem runs_resume_only_from_paused_witness:
  "((\<exists>ent. fst (runs_resume ''r1'' (env_at 7 ''A'') b_paused) = Inr ent)
     \<and> stored_attr (snd (runs_resume ''r1'' (env_at 7 ''A'') b_paused)) (runPK ''r1'', runMetaSK) ''status''
         = Some (Str ''running''))
   \<and> (fst (runs_resume ''r1'' (env_at 7 ''A'') b_r1)
         = Inl (WorkflowAPIError (''Paused run not found: '' @ ''r1'') 404)
     \<and> table (snd (runs_resume ''r1'' (env_at 7 ''A'') b_r1)) = table b_r1)"
proof -
  have p: "faults b_paused = [] \<and>
           stored_attr b_paused (runPK ''r1'', runMetaSK) ''status'' = Some (Str ''paused'')"
    by (simp add: b_paused_def run_r1_def stored_attr_def stored_def has_key_def runPK_def runMetaSK_def)
  have q: "stored_attr b_r1 (runPK ''r1'', runMetaSK) ''status'' \<noteq> Some (Str ''paused'')"
    by (simp add: b_r1_def run_r1_def stored_attr_def stored_def has_key_def runPK_def runMetaSK_def)
  from runs_resume_only_from_paused[of b_paused "''r1''" "env_at 7 ''A''"] p
    runs_resume_only_from_paused[of b_r1 "''r1''" "env_at 7 ''A''"] q
  show ?thesis by blast
qed

text \<open>
  C3. A failure of the backend query issued by \<^verbatim>\<open>hooks.getByToken\<close> should reach the
  caller as such. The method catches the rejection and goes on with an empty result: with
  the hook stored and the backend rejecting the call, the caller gets the 404
  \<open>Hook not found for token\<close>.
\<close>

theorem getByToken_masks_backend_failure:
  "hooks_getByToken ''t1'' \<lparr>table = [hook_h1], faults = [True]\<rparr>
     = (Inl (WorkflowAPIError ''Hook not found for token: t1'' 404),
        \<lparr>table = [hook_h1], faults = []\<rparr>)"
  by (simp add: hooks_getByToken_def dyn_query_def attempt_def)

text \<open>
  C4. Create followed by get, as the code has it. On an answering backend, when
  \<^verbatim>\<open>runs.create\<close> returns an entity, \<^verbatim>\<open>runs.get\<close> of the generated id returns the
  same entity; likewise \<^verbatim>\<open>steps.create\<close> and \<^verbatim>\<open>steps.get\<close> for a non-empty run id, and
  \<^verbatim>\<open>hooks.create\<close> and \<^verbatim>\<open>hooks.get\<close> when no other stored record carries the hook
  id. The instants of the entity are structured instants, and no field of it is
  \<open>null\<close>: a field that is stored as \<open>null\<close> (the execution context that was not
  given) is present with the value \<open>undefined\<close>. Each create returns when the key it
  writes is free.
\<close>

theorem create_then_get:
  assumes f: "faults b = []"
  shows "(fst (runs_create wfn inp ctx dep e b) = Inr ent \<longrightarrow>
            fst (runs_get (ULID_PREFIX_RUN @ ulid e) (snd (runs_create wfn inp ctx dep e b))) = Inr ent
            \<and> map_of ent ''createdAt'' = Some (Date (nowMs e 0))
            \<and> map_of ent ''updatedAt'' = Some (Date (nowMs e 0))
            \<and> map_of ent ''executionContext'' = Some (if nullish ctx Null = Null then Undefined else ctx)
            \<and> Null \<notin> snd ` set ent)
       \<and> (runId \<noteq> [] \<and> fst (steps_create runId sid nm sinp e b) = Inr ent' \<longrightarrow>
            fst (steps_get runId (case sid of None \<Rightarrow> ULID_PREFIX_STEP @ ulid e | Some s \<Rightarrow> s)
                   (snd (steps_create runId sid nm sinp e b))) = Inr ent'
            \<and> map_of ent' ''createdAt'' = Some (Date (nowMs e 0))
            \<and> map_of ent' ''updatedAt'' = Some (Date (nowMs e 0))
            \<and> Null \<notin> snd ` set ent')
       \<and> ((\<forall>it\<in>set (table b). getprop it ''hookId'' \<noteq> Str hookId)
            \<and> fst (hooks_create hrun hookId token e b) = Inr ent'' \<longrightarrow>
            fst (hooks_get hookId (snd (hooks_create hrun hookId token e b))) = Inr ent''
            \<and> map_of ent'' ''createdAt'' = Some (Date (nowMs e 0))
            \<and> Null \<notin> snd ` set ent'')
       \<and> (stored b (runPK (ULID_PREFIX_RUN @ ulid e), runMetaSK) = None \<longrightarrow>
            (\<exists>x. fst (runs_create wfn inp ctx dep e b) = Inr x))
       \<and> (stored b (runPK runId, stepSK (case sid of None \<Rightarrow> ULID_PREFIX_STEP @ ulid e | Some s \<Rightarrow> s)) = None \<longrightarrow>
            (\<exists>x. fst (steps_create runId sid nm sinp e b) = Inr x))
       \<and> (stored b (runPK hrun, hookSK hookId) = None \<longrightarrow>
            (\<exists>x. fst (hooks_create hrun hookId token e b) = Inr x))"
proof (intro conjI impI)
  define rid where "rid = ULID_PREFIX_RUN @ ulid e"
  define c where "c = Some (attribute_not_exists ''PK'')"
  define item where "item =
     [(''PK'', Str (runPK rid)), (''SK'', Str runMetaSK), (''entityType'', Str ''Run''),
      (''runId'', Str rid), (''workflowName'', Str wfn), (''input'', inp),
      (''executionContext'', nullish ctx Null),
      (''deploymentId'', Str dep), (''status'', Str ''pending''),
      (''createdAt'', Num (nowMs e 0)), (''updatedAt'', Num (nowMs e 0))]"
  have sc: "runs_create wfn inp ctx dep e b =
      (case dyn_put item c b of
         (Inl err, b') \<Rightarrow> (Inl (WorkflowAPIError (''Run '' @ rid @ '' already exists'') 409), b')
       | (Inr u, b') \<Rightarrow> (Inr (compact item), b'))"
    by (simp add: runs_create_def item_def c_def rid_def Let_def split: prod.splits sum.splits)
  assume a: "fst (runs_create wfn inp ctx dep e b) = Inr ent"
  obtain r b1 where p1: "dyn_put item c b = (r, b1)" by (cases "dyn_put item c b")
  with a obtain u where ru: "r = Inr u" by (cases r) (simp_all add: sc)
  have ent: "ent = compact item" using a by (simp add: sc p1 ru)
  have b1: "snd (runs_create wfn inp ctx dep e b) = b1" by (simp add: sc p1 ru)
  have f1: "faults b1 = []" by (rule faults_after_put[OF f p1])
  have t1: "table b1 = item # filter (\<lambda>it. \<not> same_key item it) (table b)"
    using dyn_put_Inr(1)[OF p1[unfolded ru]] .
  have hk: "has_key (runPK rid, runMetaSK) item" by (simp add: has_key_def item_def)
  have st: "stored b1 (runPK rid, runMetaSK) = Some item"
    by (simp add: stored_def t1 hk)
  show "fst (runs_get (ULID_PREFIX_RUN @ ulid e) (snd (runs_create wfn inp ctx dep e b))) = Inr ent"
    unfolding b1 rid_def[symmetric] by (simp add: runs_get_def dyn_get_ok[OF f1] st ent)
  show "map_of ent ''createdAt'' = Some (Date (nowMs e 0))"
    by (simp add: ent item_def map_of_compact is_timestamp_key_def)
  show "map_of ent ''updatedAt'' = Some (Date (nowMs e 0))"
    by (simp add: ent item_def map_of_compact is_timestamp_key_def)
  show "map_of ent ''executionContext'' = Some (if nullish ctx Null = Null then Undefined else ctx)"
    by (cases ctx) (simp_all add: ent item_def map_of_compact is_timestamp_key_def nullish_def)
  show "Null \<notin> snd ` set ent" unfolding ent by (rule compact_no_null)
next
  define stepId where "stepId = (case sid of None \<Rightarrow> ULID_PREFIX_STEP @ ulid e | Some s \<Rightarrow> s)"
  define c where "c = Some (cond_and (attribute_not_exists ''PK'') (attribute_not_exists ''SK''))"
  define item where "item =
     [(''PK'', Str (runPK runId)), (''SK'', Str (stepSK stepId)),
      (''entityType'', Str ''Step''), (''runId'', Str runId), (''stepId'', Str stepId),
      (''stepName'', Str nm), (''input'', sinp), (''status'', Str ''pending''),
      (''attempt'', Num 1), (''createdAt'', Num (nowMs e 0)), (''updatedAt'', Num (nowMs e 0))]"
  have sc: "steps_create runId sid nm sinp e b =
      (case dyn_put item c b of
         (Inl err, b') \<Rightarrow> (Inl (WorkflowAPIError (''Step '' @ stepId @ '' already exists'') 409), b')
       | (Inr u, b') \<Rightarrow> (Inr (compact item), b'))"
    by (simp add: steps_create_def item_def c_def stepId_def Let_def split: prod.splits sum.splits)
  assume "runId \<noteq> [] \<and> fst (steps_create runId sid nm sinp e b) = Inr ent'"
  then have ne: "runId \<noteq> []" and a: "fst (steps_create runId sid nm sinp e b) = Inr ent'" by simp_all
  obtain r b1 where p1: "dyn_put item c b = (r, b1)" by (cases "dyn_put item c b")
  with a obtain u where ru: "r = Inr u" by (cases r) (simp_all add: sc)
  have ent: "ent' = compact item" using a by (simp add: sc p1 ru)
  have b1: "snd (steps_create runId sid nm sinp e b) = b1" by (simp add: sc p1 ru)
  have f1: "faults b1 = []" by (rule faults_after_put[OF f p1])
  have t1: "table b1 = item # filter (\<lambda>it. \<not> same_key item it) (table b)"
    using dyn_put_Inr(1)[OF p1[unfolded ru]] .
  have hk: "has_key (runPK runId, stepSK stepId) item" by (simp add: has_key_def item_def)
  have st: "stored b1 (runPK runId, stepSK stepId) = Some item"
    by (simp add: stored_def t1 hk)
  show "fst (steps_get runId (case sid of None \<Rightarrow> ULID_PREFIX_STEP @ ulid e | Some s \<Rightarrow> s)
                   (snd (steps_create runId sid nm sinp e b))) = Inr ent'"
    unfolding b1 stepId_def[symmetric] using ne by (simp add: steps_get_def dyn_get_ok[OF f1] st ent)
  show "map_of ent' ''createdAt'' = Some (Date (nowMs e 0))"
    by (simp add: ent item_def map_of_compact is_timestamp_key_def)
  show "map_of ent' ''updatedAt'' = Some (Date (nowMs e 0))"
    by (simp add: ent item_def map_of_compact is_timestamp_key_def)
  show "Null \<notin> snd ` set ent'" unfolding ent by (rule compact_no_null)
next
  define c where "c = Some (cond_and (attribute_not_exists ''PK'') (attribute_not_exists ''SK''))"
  define item where "item =
     [(''PK'', Str (runPK hrun)), (''SK'', Str (hookSK hookId)),
      (''entityType'', Str ''Hook''), (''runId'', Str hrun), (''hookId'', Str hookId),
      (''token'', Str token), (''ownerId'', Str []), (''projectId'', Str []),
      (''environment'', Str []), (''createdAt'', Num (nowMs e 0))]"
  define q where "q = \<lparr>IndexName = Some ''hookIdIndex'', KeyCondition = (Direct ''hookId'', Str hookId),
                      RangeCondition = None, ScanIndexForward = True, Limit = 1\<rparr>"
  have sc: "hooks_create hrun hookId token e b =
      (case dyn_put item c b of
         (Inl err, b') \<Rightarrow> (Inl (WorkflowAPIError (''Hook '' @ hookId @ '' already exists'') 409), b')
       | (Inr u, b') \<Rightarrow> (Inr (compact item), b'))"
    by (simp add: hooks_create_def item_def c_def Let_def split: prod.splits sum.splits)
  assume "(\<forall>it\<in>set (table b). getprop it ''hookId'' \<noteq> Str hookId)
            \<and> fst (hooks_create hrun hookId token e b) = Inr ent''"
  then have uniq: "\<forall>it\<in>set (table b). getprop it ''hookId'' \<noteq> Str hookId"
    and a: "fst (hooks_create hrun hookId token e b) = Inr ent''" by simp_all
  obtain r b1 where p1: "dyn_put item c b = (r, b1)" by (cases "dyn_put item c b")
  with a obtain u where ru: "r = Inr u" by (cases r) (simp_all add: sc)
  have ent: "ent'' = compact item" using a by (simp add: sc p1 ru)
  have b1: "snd (hooks_create hrun hookId token e b) = b1" by (simp add: sc p1 ru)
  have f1: "faults b1 = []" by (rule faults_after_put[OF f p1])
  have t1: "table b1 = item # filter (\<lambda>it. \<not> same_key item it) (table b)"
    using dyn_put_Inr(1)[OF p1[unfolded ru]] .
  have m: "matches q item"
    by (simp add: matches_def q_def item_def indexed_def sort_attribute_def in_range_def getprop_def)
  have nm: "\<forall>it\<in>set (table b). \<not> matches q it"
    using uniq by (auto simp: matches_def q_def getprop_def)
  have fl: "filter (matches q) (table b1) = [item]"
    unfolding t1 by (rule filter_singleton[OF m nm])
  have dq: "dyn_query q b1 = (Inr [item], b1)"
    by (simp add: dyn_query_def attempt_ok[OF f1] fl)
       (simp add: q_def valid_query_def reserved_word_def ordered_def sort_attribute_def sort_by_def)
  have hg: "hooks_get hookId b1 =
      (case dyn_query q b1 of
         (Inl f, b') \<Rightarrow> (Inl (Rejected f), b')
       | (Inr [], b') \<Rightarrow> (Inl (WorkflowAPIError (''Hook not found: '' @ hookId) 404), b')
       | (Inr (item # rest), b') \<Rightarrow> (Inr (compact item), b'))"
    by (simp only: hooks_get_def q_def)
  show "fst (hooks_get hookId (snd (hooks_create hrun hookId token e b))) = Inr ent''"
    unfolding b1 hg dq by (simp add: ent)
  show "map_of ent'' ''createdAt'' = Some (Date (nowMs e 0))"
    by (simp add: ent item_def map_of_compact is_timestamp_key_def)
  show "Null \<notin> snd ` set ent''" unfolding ent by (rule compact_no_null)
next
  assume "stored b (runPK (ULID_PREFIX_RUN @ ulid e), runMetaSK) = None"
  then show "\<exists>x. fst (runs_create wfn inp ctx dep e b) = Inr x"
    by (simp add: runs_create_def Let_def dyn_put_def attempt_ok[OF f] holds_opt_def
        stored_def same_key_literal)
next
  assume "stored b (runPK runId, stepSK (case sid of None \<Rightarrow> ULID_PREFIX_STEP @ ulid e | Some s \<Rightarrow> s)) = None"
  then show "\<exists>x. fst (steps_create runId sid nm sinp e b) = Inr x"
    by (simp add: steps_create_def Let_def dyn_put_def attempt_ok[OF f] holds_opt_def
        stored_def same_key_literal)
next
  assume "stored b (runPK hrun, hookSK hookId) = None"
  then show "\<exists>x. fst (hooks_create hrun hookId token e b) = Inr x"
    by (simp add: hooks_create_def Let_def dyn_put_def attempt_ok[OF f] holds_opt_def
        stored_def same_key_literal)
qed

theorem create_then_get_witness:
  "((\<exists>x. fst (runs_create ''demo'' (Arr []) Undefined ''d1'' (env_at 5 ''A'') b_r1) = Inr x)
     \<and> fst (runs_get (ULID_PREFIX_RUN @ ulid (env_at 5 ''A''))
              (snd (runs_create ''demo'' (Arr []) Undefined ''d1'' (env_at 5 ''A'') b_r1)))
        = fst (runs_create ''demo'' (Arr []) Undefined ''d1'' (env_at 5 ''A'') b_r1))
   \<and> ((\<exists>x. fst (steps_create ''r1'' (Some ''s2'') ''load'' (Arr []) (env_at 5 ''A'') b_r1) = Inr x)
     \<and> fst (steps_get ''r1'' ''s2''
              (snd (steps_create ''r1'' (Some ''s2'') ''load'' (Arr []) (env_at 5 ''A'') b_r1)))
        = fst (steps_create ''r1'' (Some ''s2'') ''load'' (Arr []) (env_at 5 ''A'') b_r1))
   \<and> ((\<exists>x. fst (hooks_create ''r1'' ''h2'' ''t2'' (env_at 5 ''A'') b_r1) = Inr x)
     \<and> fst (hooks_get ''h2'' (snd (hooks_create ''r1'' ''h2'' ''t2'' (env_at 5 ''A'') b_r1)))
        = fst (hooks_create ''r1'' ''h2'' ''t2'' (env_at 5 ''A'') b_r1))"
proof -
  have f: "faults b_r1 = []" by (simp add: b_r1_def)
  have k1: "stored b_r1 (runPK (ULID_PREFIX_RUN @ ulid (env_at 5 ''A'')), runMetaSK) = None"
    by (simp add: b_r1_def run_r1_def step_s1_def hook_h1_def stored_def has_key_def runPK_def
        runMetaSK_def ULID_PREFIX_RUN_def env_at_def)
  have k2: "stored b_r1 (runPK ''r1'', stepSK (case Some ''s2'' of None \<Rightarrow> ULID_PREFIX_STEP @ ulid (env_at 5 ''A'') | Some s \<Rightarrow> s)) = None"
    by (simp add: b_r1_def run_r1_def step_s1_def hook_h1_def stored_def has_key_def runPK_def
        stepSK_def)
  have k3: "stored b_r1 (runPK ''r1'', hookSK ''h2'') = None"
    by (simp add: b_r1_def run_r1_def step_s1_def hook_h1_def stored_def has_key_def runPK_def
        hookSK_def)
  have u: "\<forall>it\<in>set (table b_r1). getprop it ''hookId'' \<noteq> Str ''h2''"
    by (simp add: b_r1_def run_r1_def step_s1_def hook_h1_def getprop_def)
  have n: "''r1'' \<noteq> []" by simp
  note th = create_then_get[OF f, where wfn = "''demo''" and inp = "Arr []" and ctx = Undefined
      and dep = "''d1''" and e = "env_at 5 ''A''" and runId = "''r1''" and sid = "Some ''s2''"
      and nm = "''load''" and sinp = "Arr []" and hrun = "''r1''" and hookId = "''h2''"
      and token = "''t2''"]
  from th k1 obtain x where x: "fst (runs_create ''demo'' (Arr []) Undefined ''d1'' (env_at 5 ''A'') b_r1) = Inr x"
    by blast
  from th k2 obtain y where y: "fst (steps_create ''r1'' (Some ''s2'') ''load'' (Arr []) (env_at 5 ''A'') b_r1) = Inr y"
    by blast
  from th k3 obtain z where z: "fst (hooks_create ''r1'' ''h2'' ''t2'' (env_at 5 ''A'') b_r1) = Inr z"
    by blast
  from th[of x y z] x y z u n show ?thesis by simp
qed

text \<open>
  The claim as stated has the null-valued fields omitted. The run created without an
  execution context is stored with \<open>executionContext = null\<close>; the entity that create and
  get return has the key \<open>executionContext\<close>, with the value \<open>undefined\<close>.
\<close>

theorem null_field_is_kept_as_undefined:
  "fst (runs_create ''demo'' (Arr []) Undefined ''d1'' (env_at 5 ''A'') \<lparr>table = [], faults = []\<rparr>)
     = Inr created_run
   \<and> fst (runs_get ''wrun_A''
            (snd (runs_create ''demo'' (Arr []) Undefined ''d1'' (env_at 5 ''A'')
                    \<lparr>table = [], faults = []\<rparr>)))
     = Inr created_run
   \<and> map_of created_run ''executionContext'' = Some Undefined
   \<and> ''executionContext'' \<in> fst ` set created_run"
  by (simp add: runs_create_def runs_get_def created_run_def ULID_PREFIX_RUN_def nullish_def eval_defs)

text \<open>
  C5. When \<^verbatim>\<open>steps.create\<close> has succeeded for a caller-supplied \<open>(runId, stepId)\<close>, a
  second \<^verbatim>\<open>steps.create\<close> with the same pair, whatever its other arguments, fails
  with the 409 Conflict and leaves the table, and so the first record, as it was; the
  same holds for \<^verbatim>\<open>hooks.create\<close> with the same \<open>(runId, hookId)\<close>.
\<close>

theorem second_create_conflicts:
  "(fst (steps_create runId (Some stepId) na ia ea b) = Inr ent \<longrightarrow>
      fst (steps_create runId (Some stepId) nb ib eb (snd (steps_create runId (Some stepId) na ia ea b)))
        = Inl (WorkflowAPIError (''Step '' @ stepId @ '' already exists'') 409)
      \<and> table (snd (steps_create runId (Some stepId) nb ib eb
                      (snd (steps_create runId (Some stepId) na ia ea b))))
        = table (snd (steps_create runId (Some stepId) na ia ea b)))
   \<and> (fst (hooks_create runId hookId ta ea b) = Inr ent' \<longrightarrow>
      fst (hooks_create runId hookId tb eb (snd (hooks_create runId hookId ta ea b)))
        = Inl (WorkflowAPIError (''Hook '' @ hookId @ '' already exists'') 409)
      \<and> table (snd (hooks_create runId hookId tb eb (snd (hooks_create runId hookId ta ea b))))
        = table (snd (hooks_create runId hookId ta ea b)))"
proof (intro conjI impI)
  define c where "c = Some (cond_and (attribute_not_exists ''PK'') (attribute_not_exists ''SK''))"
  define item where "item = (\<lambda>nm inp (e::env).
     [(''PK'', Str (runPK runId)), (''SK'', Str (stepSK stepId)),
      (''entityType'', Str ''Step''), (''runId'', Str runId), (''stepId'', Str stepId),
      (''stepName'', Str nm), (''input'', inp), (''status'', Str ''pending''),
      (''attempt'', Num 1), (''createdAt'', Num (nowMs e 0)), (''updatedAt'', Num (nowMs e 0))])"
  have sc: "steps_create runId (Some stepId) nm inp e bb =
      (case dyn_put (item nm inp e) c bb of
         (Inl err, b') \<Rightarrow> (Inl (WorkflowAPIError (''Step '' @ stepId @ '' already exists'') 409), b')
       | (Inr u, b') \<Rightarrow> (Inr (compact (item nm inp e)), b'))" for nm inp e bb
    by (simp add: steps_create_def item_def c_def Let_def split: prod.splits sum.splits)
  assume a: "fst (steps_create runId (Some stepId) na ia ea b) = Inr ent"
  obtain r b1 where p1: "dyn_put (item na ia ea) c b = (r, b1)" by (cases "dyn_put (item na ia ea) c b")
  with a obtain u where ru: "r = Inr u" by (cases r) (simp_all add: sc)
  have b1: "snd (steps_create runId (Some stepId) na ia ea b) = b1" by (simp add: sc p1 ru)
  have t1: "table b1 = item na ia ea # filter (\<lambda>it. \<not> same_key (item na ia ea) it) (table b)"
    using dyn_put_Inr(1)[OF p1[unfolded ru]] .
  have same: "same_key (item nb ib eb) (item na ia ea)" by (simp add: same_key_def item_def)
  have fnd: "find (same_key (item nb ib eb)) (table b1) = Some (item na ia ea)"
    by (simp add: t1 same)
  obtain r2 b2 where p2: "dyn_put (item nb ib eb) c b1 = (r2, b2)" by (cases "dyn_put (item nb ib eb) c b1")
  from dyn_put_occupied(1)[OF fnd, of "''PK''" "attribute_not_exists ''SK''"] p2
  obtain err where r2: "r2 = Inl err" by (auto simp: item_def c_def)
  show "fst (steps_create runId (Some stepId) nb ib eb (snd (steps_create runId (Some stepId) na ia ea b)))
        = Inl (WorkflowAPIError (''Step '' @ stepId @ '' already exists'') 409)"
    unfolding b1 by (simp add: sc p2 r2)
  show "table (snd (steps_create runId (Some stepId) nb ib eb
                      (snd (steps_create runId (Some stepId) na ia ea b))))
        = table (snd (steps_create runId (Some stepId) na ia ea b))"
    unfolding b1 using dyn_put_Inl[OF p2[unfolded r2]] by (simp add: sc p2 r2)
next
  define c where "c = Some (cond_and (attribute_not_exists ''PK'') (attribute_not_exists ''SK''))"
  define item where "item = (\<lambda>token (e::env).
     [(''PK'', Str (runPK runId)), (''SK'', Str (hookSK hookId)),
      (''entityType'', Str ''Hook''), (''runId'', Str runId), (''hookId'', Str hookId),
      (''token'', Str token), (''ownerId'', Str []), (''projectId'', Str []),
      (''environment'', Str []), (''createdAt'', Num (nowMs e 0))])"
  have sc: "hooks_create runId hookId token e bb =
      (case dyn_put (item token e) c bb of
         (Inl err, b') \<Rightarrow> (Inl (WorkflowAPIError (''Hook '' @ hookId @ '' already exists'') 409), b')
       | (Inr u, b') \<Rightarrow> (Inr (compact (item token e)), b'))" for token e bb
    by (simp add: hooks_create_def item_def c_def Let_def split: prod.splits sum.splits)
  assume a: "fst (hooks_create runId hookId ta ea b) = Inr ent'"
  obtain r b1 where p1: "dyn_put (item ta ea) c b = (r, b1)" by (cases "dyn_put (item ta ea) c b")
  with a obtain u where ru: "r = Inr u" by (cases r) (simp_all add: sc)
  have b1: "snd (hooks_create runId hookId ta ea b) = b1" by (simp add: sc p1 ru)
  have t1: "table b1 = item ta ea # filter (\<lambda>it. \<not> same_key (item ta ea) it) (table b)"
    using dyn_put_Inr(1)[OF p1[unfolded ru]] .
  have same: "same_key (item tb eb) (item ta ea)" by (simp add: same_key_def item_def)
  have fnd: "find (same_key (item tb eb)) (table b1) = Some (item ta ea)"
    by (simp add: t1 same)
  obtain r2 b2 where p2: "dyn_put (item tb eb) c b1 = (r2, b2)" by (cases "dyn_put (item tb eb) c b1")
  from dyn_put_occupied(1)[OF fnd, of "''PK''" "attribute_not_exists ''SK''"] p2
  obtain err where r2: "r2 = Inl err" by (auto simp: item_def c_def)
  show "fst (hooks_create runId hookId tb eb (snd (hooks_create runId hookId ta ea b)))
        = Inl (WorkflowAPIError (''Hook '' @ hookId @ '' already exists'') 409)"
    unfolding b1 by (simp add: sc p2 r2)
  show "table (snd (hooks_create runId hookId tb eb (snd (hooks_create runId hookId ta ea b))))
        = table (snd (hooks_create runId hookId ta ea b))"
    unfolding b1 using dyn_put_Inl[OF p2[unfolded r2]] by (simp add: sc p2 r2)
qed

theorem second_create_conflicts_witness:
  "(fst (steps_create ''r1'' (Some ''s2'') ''load'' (Arr []) (env_at 8 ''A'')
          (snd (steps_create ''r1'' (Some ''s2'') ''fetch'' (Arr []) (env_at 7 ''A'') b_r1)))
        = Inl (WorkflowAPIError (''Step '' @ ''s2'' @ '' already exists'') 409)
      \<and> table (snd (steps_create ''r1'' (Some ''s2'') ''load'' (Arr []) (env_at 8 ''A'')
                      (snd (steps_create ''r1'' (Some ''s2'') ''fetch'' (Arr []) (env_at 7 ''A'') b_r1))))
        = table (snd (steps_create ''r1'' (Some ''s2'') ''fetch'' (Arr []) (env_at 7 ''A'') b_r1)))
   \<and> (fst (hooks_create ''r1'' ''h2'' ''t3'' (env_at 8 ''A'')
             (snd (hooks_create ''r1'' ''h2'' ''t2'' (env_at 7 ''A'') b_r1)))
        = Inl (WorkflowAPIError (''Hook '' @ ''h2'' @ '' already exists'') 409)
      \<and> table (snd (hooks_create ''r1'' ''h2'' ''t3'' (env_at 8 ''A'')
                      (snd (hooks_create ''r1'' ''h2'' ''t2'' (env_at 7 ''A'') b_r1))))
        = table (snd (hooks_create ''r1'' ''h2'' ''t2'' (env_at 7 ''A'') b_r1)))"
proof -
  have s: "fst (steps_create ''r1'' (Some ''s2'') ''fetch'' (Arr []) (env_at 7 ''A'') b_r1)
             = Inr (compact [(''PK'', Str ''RUN#r1''), (''SK'', Str ''STEP#s2''),
                  (''entityType'', Str ''Step''), (''runId'', Str ''r1''), (''stepId'', Str ''s2''),
                  (''stepName'', Str ''fetch''), (''input'', Arr []), (''status'', Str ''pending''),
                  (''attempt'', Num 1), (''createdAt'', Num 7), (''updatedAt'', Num 7)])"
    by (simp add: steps_create_def b_r1_def run_r1_def step_s1_def hook_h1_def dyn_put_def
        attempt_def holds_opt_def same_key_def runPK_def stepSK_def env_at_def Let_def)
  have h: "fst (hooks_create ''r1'' ''h2'' ''t2'' (env_at 7 ''A'') b_r1)
             = Inr (compact [(''PK'', Str ''RUN#r1''), (''SK'', Str ''HOOK#h2''),
                  (''entityType'', Str ''Hook''), (''runId'', Str ''r1''), (''hookId'', Str ''h2''),
                  (''token'', Str ''t2''), (''ownerId'', Str []), (''projectId'', Str []),
                  (''environment'', Str []), (''createdAt'', Num 7)])"
    by (simp add: hooks_create_def b_r1_def run_r1_def step_s1_def hook_h1_def dyn_put_def
        attempt_def holds_opt_def same_key_def runPK_def hookSK_def env_at_def Let_def)
  from second_create_conflicts[where b = b_r1 and runId = "''r1''" and stepId = "''s2''"
      and na = "''fetch''" and ia = "Arr []" and ea = "env_at 7 ''A''"
      and nb = "''load''" and ib = "Arr []" and eb = "env_at 8 ''A''"
      and hookId = "''h2''" and ta = "''t2''" and tb = "''t3''"] s h
  show ?thesis by blast
qed

text \<open>
  C6. For runs and steps alike, an update with status \<open>running\<close> sets \<open>startedAt\<close>
  only when the stored record has none yet, and a second such update leaves it unchanged.
  On an answering backend that holds the record: after the first update the stored
  \<open>startedAt\<close> is the one already there if there was one (a truthy value), and the
  clock reading otherwise; after a second update with status \<open>running\<close> it is the same
  as after the first. The clock reading of the first update is an instant other than the
  epoch itself (\<^verbatim>\<open>!current.startedAt\<close> takes 0 for absent).
\<close>

theorem startedAt_set_once:
  assumes f: "faults b = []"
    and r1: "getprop pa ''status'' = Str ''running''"
    and r2: "getprop pb ''status'' = Str ''running''"
    and t: "nowMs ea 0 \<noteq> 0"
  shows "(stored b (runPK rid, runMetaSK) = Some cur \<longrightarrow>
            stored_attr (snd (runs_update rid pa ea b)) (runPK rid, runMetaSK) ''startedAt''
              = (if truthy (getprop cur ''startedAt'') then map_of cur ''startedAt''
                 else Some (Num (nowMs ea 0)))
            \<and> stored_attr (snd (runs_update rid pb eb (snd (runs_update rid pa ea b))))
                 (runPK rid, runMetaSK) ''startedAt''
              = stored_attr (snd (runs_update rid pa ea b)) (runPK rid, runMetaSK) ''startedAt'')
       \<and> (stored b (runPK runId, stepSK stepId) = Some cur' \<longrightarrow>
            stored_attr (snd (steps_update runId stepId pa ea b)) (runPK runId, stepSK stepId) ''startedAt''
              = (if truthy (getprop cur' ''startedAt'') then map_of cur' ''startedAt''
                 else Some (Num (nowMs ea 0)))
            \<and> stored_attr (snd (steps_update runId stepId pb eb (snd (steps_update runId stepId pa ea b))))
                 (runPK runId, stepSK stepId) ''startedAt''
              = stored_attr (snd (steps_update runId stepId pa ea b)) (runPK runId, stepSK stepId) ''startedAt'')"
proof (intro conjI impI)
  assume s: "stored b (runPK rid, runMetaSK) = Some cur"
  from runs_update_effect[OF f s, of pa ea] r1 obtain new1 b1 where
    u1: "runs_update rid pa ea b = (Inr (compact new1), b1)" and f1: "faults b1 = []"
    and s1: "stored b1 (runPK rid, runMetaSK) = Some new1"
    and a1: "map_of new1 ''startedAt'' =
               (if \<not> truthy (getprop cur ''startedAt'') then Some (Num (nowMs ea 0))
                else map_of cur ''startedAt'')"
    by auto
  have tr: "truthy (getprop new1 ''startedAt'')"
  proof (cases "truthy (getprop cur ''startedAt'')")
    case True
    with a1 have "getprop new1 ''startedAt'' = getprop cur ''startedAt''"
      by (simp add: getprop_def)
    with True show ?thesis by simp
  next
    case False
    with a1 t show ?thesis by (simp add: getprop_def)
  qed
  from runs_update_effect[OF f1 s1, of pb eb] r2 tr obtain new2 b2 where
    u2: "runs_update rid pb eb b1 = (Inr (compact new2), b2)"
    and s2: "stored b2 (runPK rid, runMetaSK) = Some new2"
    and a2: "map_of new2 ''startedAt'' = map_of new1 ''startedAt''"
    by auto
  show "stored_attr (snd (runs_update rid pa ea b)) (runPK rid, runMetaSK) ''startedAt''
              = (if truthy (getprop cur ''startedAt'') then map_of cur ''startedAt''
                 else Some (Num (nowMs ea 0)))"
    using u1 s1 a1 by (simp add: stored_attr_def)
  show "stored_attr (snd (runs_update rid pb eb (snd (runs_update rid pa ea b))))
                 (runPK rid, runMetaSK) ''startedAt''
              = stored_attr (snd (runs_update rid pa ea b)) (runPK rid, runMetaSK) ''startedAt''"
    using u1 u2 s1 s2 a2 by (simp add: stored_attr_def)
next
  assume s: "stored b (runPK runId, stepSK stepId) = Some cur'"
  from steps_update_effect[OF f s, of pa ea] r1 obtain new1 b1 where
    u1: "steps_update runId stepId pa ea b = (Inr (compact new1), b1)" and f1: "faults b1 = []"
    and s1: "stored b1 (runPK runId, stepSK stepId) = Some new1"
    and a1: "map_of new1 ''startedAt'' =
               (if \<not> truthy (getprop cur' ''startedAt'') then Some (Num (nowMs ea 0))
                else map_of cur' ''startedAt'')"
    by auto
  have tr: "truthy (getprop new1 ''startedAt'')"
  proof (cases "truthy (getprop cur' ''startedAt'')")
    case True
    with a1 have "getprop new1 ''startedAt'' = getprop cur' ''startedAt''"
      by (simp add: getprop_def)
    with True show ?thesis by simp
  next
    case False
    with a1 t show ?thesis by (simp add: getprop_def)
  qed
  from steps_update_effect[OF f1 s1, of pb eb] r2 tr obtain new2 b2 where
    u2: "steps_update runId stepId pb eb b1 = (Inr (compact new2), b2)"
    and s2: "stored b2 (runPK runId, stepSK stepId) = Some new2"
    and a2: "map_of new2 ''startedAt'' = map_of new1 ''startedAt''"
    by auto
  show "stored_attr (snd (steps_update runId stepId pa ea b)) (runPK runId, stepSK stepId) ''startedAt''
              = (if truthy (getprop cur' ''startedAt'') then map_of cur' ''startedAt''
                 else Some (Num (nowMs ea 0)))"
    using u1 s1 a1 by (simp add: stored_attr_def)
  show "stored_attr (snd (steps_update runId stepId pb eb (snd (steps_update runId stepId pa ea b))))
                 (runPK runId, stepSK stepId) ''startedAt''
              = stored_attr (snd (steps_update runId stepId pa ea b)) (runPK runId, stepSK stepId) ''startedAt''"
    using u1 u2 s1 s2 a2 by (simp add: stored_attr_def)
qed

theorem startedAt_set_once_witness:
  "(stored_attr (snd (runs_update ''r1'' [(''status'', Str ''running'')] (env_at 7 ''A'') b_r1))
       (runPK ''r1'', runMetaSK) ''startedAt'' = Some (Num 7)
    \<and> stored_attr (snd (runs_update ''r1'' [(''status'', Str ''running'')] (env_at 9 ''A'')
                        (snd (runs_update ''r1'' [(''status'', Str ''running'')] (env_at 7 ''A'') b_r1))))
       (runPK ''r1'', runMetaSK) ''startedAt'' = Some (Num 7))
   \<and> (stored_attr (snd (steps_update ''r1'' ''s1'' [(''status'', Str ''running'')] (env_at 7 ''A'') b_r1))
       (runPK ''r1'', stepSK ''s1'') ''startedAt'' = Some (Num 7)
    \<and> stored_attr (snd (steps_update ''r1'' ''s1'' [(''status'', Str ''running'')] (env_at 9 ''A'')
                        (snd (steps_update ''r1'' ''s1'' [(''status'', Str ''running'')] (env_at 7 ''A'') b_r1))))
       (runPK ''r1'', stepSK ''s1'') ''startedAt'' = Some (Num 7))"
proof -
  have f: "faults b_r1 = []" by (simp add: b_r1_def)
  have r: "getprop [(''status'', Str ''running'')] ''status'' = Str ''running''"
    by (simp add: getprop_def)
  have t: "nowMs (env_at 7 ''A'') 0 \<noteq> 0" by (simp add: env_at_def)
  have s1: "stored b_r1 (runPK ''r1'', runMetaSK) = Some run_r1"
    by (simp add: b_r1_def run_r1_def stored_def has_key_def runPK_def runMetaSK_def)
  have s2: "stored b_r1 (runPK ''r1'', stepSK ''s1'') = Some step_s1"
    by (simp add: b_r1_def run_r1_def step_s1_def stored_def has_key_def runPK_def stepSK_def)
  from startedAt_set_once[OF f r r t, where rid = "''r1''" and cur = run_r1
      and eb = "env_at 9 ''A''"
      and runId = "''r1''" and stepId = "''s1''" and cur' = step_s1] s1 s2
  show ?thesis by (simp add: getprop_def env_at_def step_s1_def run_r1_def)
qed

text \<open>
  C7. \<^verbatim>\<open>runs.update\<close> sets \<open>completedAt\<close> when the new status is \<open>completed\<close>,
  \<open>failed\<close> or \<open>cancelled\<close>; \<^verbatim>\<open>steps.update\<close> sets it only for \<open>completed\<close> and
  \<open>failed\<close>. On an answering backend that holds the record, the stored \<open>completedAt\<close>
  after the update is the clock reading in exactly those cases and is what it was before
  in every other case (so a step updated to \<open>cancelled\<close> keeps its \<open>completedAt\<close>).
\<close>

theorem completedAt_on_terminal_status:
  assumes "faults b = []"
  shows "(stored b (runPK rid, runMetaSK) = Some cur \<longrightarrow>
            stored_attr (snd (runs_update rid partial e b)) (runPK rid, runMetaSK) ''completedAt''
              = (if getprop partial ''status'' \<in> {Str ''completed'', Str ''failed'', Str ''cancelled''}
                 then Some (Num (nowMs e 0)) else map_of cur ''completedAt''))
       \<and> (stored b (runPK runId, stepSK stepId) = Some cur' \<longrightarrow>
            stored_attr (snd (steps_update runId stepId partial e b)) (runPK runId, stepSK stepId) ''completedAt''
              = (if getprop partial ''status'' \<in> {Str ''completed'', Str ''failed''}
                 then Some (Num (nowMs e 0)) else map_of cur' ''completedAt''))"
proof (intro conjI impI)
  assume s: "stored b (runPK rid, runMetaSK) = Some cur"
  from runs_update_effect[OF assms s, of partial e] obtain new b' where
    "runs_update rid partial e b = (Inr (compact new), b')"
    "stored b' (runPK rid, runMetaSK) = Some new"
    "map_of new ''completedAt'' =
       (if getprop partial ''status'' \<in> {Str ''completed'', Str ''failed'', Str ''cancelled''}
        then Some (Num (nowMs e 0)) else map_of cur ''completedAt'')"
    by blast
  then show "stored_attr (snd (runs_update rid partial e b)) (runPK rid, runMetaSK) ''completedAt''
              = (if getprop partial ''status'' \<in> {Str ''completed'', Str ''failed'', Str ''cancelled''}
                 then Some (Num (nowMs e 0)) else map_of cur ''completedAt'')"
    by (simp add: stored_attr_def)
next
  assume s: "stored b (runPK runId, stepSK stepId) = Some cur'"
  from steps_update_effect[OF assms s, of partial e] obtain new b' where
    "steps_update runId stepId partial e b = (Inr (compact new), b')"
    "stored b' (runPK runId, stepSK stepId) = Some new"
    "map_of new ''completedAt'' =
       (if getprop partial ''status'' \<in> {Str ''completed'', Str ''failed''}
        then Some (Num (nowMs e 0)) else map_of cur' ''completedAt'')"
    by blast
  then show "stored_attr (snd (steps_update runId stepId partial e b)) (runPK runId, stepSK stepId) ''completedAt''
              = (if getprop partial ''status'' \<in> {Str ''completed'', Str ''failed''}
                 then Some (Num (nowMs e 0)) else map_of cur' ''completedAt'')"
    by (simp add: stored_attr_def)
qed

theorem completedAt_on_terminal_status_witness:
  "stored_attr (snd (runs_update ''r1'' [(''status'', Str ''cancelled'')] (env_at 7 ''A'') b_r1))
       (runPK ''r1'', runMetaSK) ''completedAt'' = Some (Num 7)
   \<and> stored_attr (snd (steps_update ''r1'' ''s1'' [(''status'', Str ''cancelled'')] (env_at 7 ''A'') b_r1))
       (runPK ''r1'', stepSK ''s1'') ''completedAt'' = None"
proof -
  have f: "faults b_r1 = []" by (simp add: b_r1_def)
  have s1: "stored b_r1 (runPK ''r1'', runMetaSK) = Some run_r1"
    by (simp add: b_r1_def run_r1_def stored_def has_key_def runPK_def runMetaSK_def)
  have s2: "stored b_r1 (runPK ''r1'', stepSK ''s1'') = Some step_s1"
    by (simp add: b_r1_def run_r1_def step_s1_def stored_def has_key_def runPK_def stepSK_def)
  from completedAt_on_terminal_status[OF f, where rid = "''r1''" and cur = run_r1
      and partial = "[(''status'', Str ''cancelled'')]" and e = "env_at 7 ''A''"
      and runId = "''r1''" and stepId = "''s1''" and cur' = step_s1] s1 s2
  show ?thesis by (simp add: getprop_def env_at_def step_s1_def)
qed

text \<open>
  C8. \<^verbatim>\<open>runs.cancel\<close> and \<^verbatim>\<open>runs.pause\<close> on a run that is not stored should fail with
  NotFound. The update they send carries no condition, so the backend adds a record with
  the key and the assigned attributes and returns it: on the empty table both calls
  return, and a record with nothing but the key, the status and the instants is stored.
\<close>

theorem cancel_and_pause_create_missing_run:
  "runs_cancel ''r1'' (env_at 5 ''A'') \<lparr>table = [], faults = []\<rparr>
     = (Inr [(''PK'', Str ''RUN#r1''), (''SK'', Str ''RUN#METADATA''),
             (''status'', Str ''cancelled''), (''completedAt'', Date 5), (''updatedAt'', Date 5)],
        \<lparr>table = [[(''PK'', Str ''RUN#r1''), (''SK'', Str ''RUN#METADATA''),
                    (''status'', Str ''cancelled''), (''completedAt'', Num 5),
                    (''updatedAt'', Num 5)]],
         faults = []\<rparr>)
   \<and> runs_pause ''r1'' (env_at 5 ''A'') \<lparr>table = [], faults = []\<rparr>
     = (Inr [(''PK'', Str ''RUN#r1''), (''SK'', Str ''RUN#METADATA''),
             (''status'', Str ''paused''), (''updatedAt'', Date 5)],
        \<lparr>table = [[(''PK'', Str ''RUN#r1''), (''SK'', Str ''RUN#METADATA''),
                    (''status'', Str ''paused''), (''updatedAt'', Num 5)]],
         faults = []\<rparr>)"
  by (simp add: runs_cancel_def runs_pause_def eval_defs)

text \<open>
  C9. \<^verbatim>\<open>runs.update\<close> with a partial that has none of the recognized fields, on a run
  that is stored and an answering backend: the update writes \<open>updatedAt\<close>, set to the
  clock reading, and nothing else; the call returns the projection of the record so
  written, and every other attribute of the stored record is what it was.
\<close>

theorem update_without_fields_writes_updatedAt_only:
  assumes f: "faults b = []"
    and s: "stored b (runPK rid, runMetaSK) = Some cur"
    and n: "\<forall>k\<in>set [''status'', ''output'', ''error'', ''errorCode'', ''deploymentId'',
                       ''executionContext'']. getprop partial k = Undefined"
  shows "fst (runs_update rid partial e b)
           = Inr (compact (AList.update ''updatedAt'' (Num (nowMs e 0)) cur))
       \<and> stored (snd (runs_update rid partial e b)) (runPK rid, runMetaSK)
           = Some (AList.update ''updatedAt'' (Num (nowMs e 0)) cur)
       \<and> (\<forall>k. k \<noteq> ''updatedAt'' \<longrightarrow>
             stored_attr (snd (runs_update rid partial e b)) (runPK rid, runMetaSK) k = map_of cur k)"
proof -
  define new where "new = AList.update ''updatedAt'' (Num (nowMs e 0)) cur"
  have c: "copied [''status'', ''output'', ''error'', ''errorCode'', ''deploymentId'',
                   ''executionContext''] partial = []"
    by (rule copied_none[OF n])
  from n have st: "getprop partial ''status'' = Undefined" by simp
  have run: "runs_update rid partial e b =
      (Inr (compact new),
       b\<lparr>table := new # filter (\<lambda>it. \<not> has_key (runPK rid, runMetaSK) it) (table b)\<rparr>)"
    by (simp add: runs_update_def dyn_get_ok[OF f] s dyn_update_ok[OF f s] Let_def c st
        apply_set_def new_def)
  have hk: "has_key (runPK rid, runMetaSK) new"
    using stored_has_key[OF s] by (simp add: has_key_def new_def AList.update_conv')
  have sn: "stored (snd (runs_update rid partial e b)) (runPK rid, runMetaSK) = Some new"
    by (simp add: run stored_after_write[OF hk])
  show ?thesis
    unfolding new_def[symmetric]
    by (simp add: run sn[unfolded run, simplified] stored_attr_def) (simp add: new_def AList.update_conv')
qed

theorem update_without_fields_writes_updatedAt_only_witness:
  "fst (runs_update ''r1'' [] (env_at 7 ''A'') b_r1)
           = Inr (compact (AList.update ''updatedAt'' (Num 7) run_r1))
   \<and> stored (snd (runs_update ''r1'' [] (env_at 7 ''A'') b_r1)) (runPK ''r1'', runMetaSK)
           = Some (AList.update ''updatedAt'' (Num 7) run_r1)"
proof -
  have f: "faults b_r1 = []" by (simp add: b_r1_def)
  have s: "stored b_r1 (runPK ''r1'', runMetaSK) = Some run_r1"
    by (simp add: b_r1_def run_r1_def stored_def has_key_def runPK_def runMetaSK_def)
  have n: "\<forall>k\<in>set [''status'', ''output'', ''error'', ''errorCode'', ''deploymentId'',
                       ''executionContext'']. getprop [] k = Undefined"
    by (simp add: getprop_def)
  from update_without_fields_writes_updatedAt_only[OF f s n, of "env_at 7 ''A''"]
  show ?thesis by (simp add: env_at_def)
qed

text \<open>
  The claim as stated has the stored record unmodified. The assignment of \<open>updatedAt\<close> is
  added before the test for an empty SET expression, so that test never succeeds: with
  the empty partial, the run stored with \<open>updatedAt = 1\<close> is written back with the clock
  reading 7, and the returned record carries that instant.
\<close>

theorem update_without_fields_refreshes_updatedAt:
  "stored_attr \<lparr>table = [run_r1], faults = []\<rparr> (runPK ''r1'', runMetaSK) ''updatedAt'' = Some (Num 1)
   \<and> fst (runs_update ''r1'' [] (env_at 7 ''A'') \<lparr>table = [run_r1], faults = []\<rparr>)
       = Inr (compact (AList.update ''updatedAt'' (Num 7) run_r1))
   \<and> stored_attr (snd (runs_update ''r1'' [] (env_at 7 ''A'') \<lparr>table = [run_r1], faults = []\<rparr>))
       (runPK ''r1'', runMetaSK) ''updatedAt'' = Some (Num 7)"
  by (simp add: runs_update_def copied_def run_r1_def eval_defs)

text \<open>
  C10. A call through \<^verbatim>\<open>loggerProxy\<close> whose argument list
  \<^verbatim>\<open>JSON.stringify\<close> accepts, and whose result it accepts when the wrapped method
  returns one, returns what the same call on the wrapped store returns, fails with the
  same error, and leaves the backend in the same state; only the console differs. This
  holds for any wrapped store, and so for the four stores that \<^verbatim>\<open>createStorage\<close>
  wraps.
\<close>

theorem loggerProxy_transparent_when_serializable:
  "(serializable obj args call e b \<longrightarrow>
      fst (loggerProxy obj args prefix call e (b, console)) = fst (obj call e b)
      \<and> fst (snd (loggerProxy obj args prefix call e (b, console))) = snd (obj call e b))
   \<and> (serializable createEventsStorage events_args ec e b \<longrightarrow>
      fst (events createStorage ec e (b, con1)) = fst (createEventsStorage ec e b)
      \<and> fst (snd (events createStorage ec e (b, con1))) = snd (createEventsStorage ec e b))
   \<and> (serializable createHooksStorage hooks_args hc e b \<longrightarrow>
      fst (hooks createStorage hc e (b, con2)) = fst (createHooksStorage hc e b)
      \<and> fst (snd (hooks createStorage hc e (b, con2))) = snd (createHooksStorage hc e b))
   \<and> (serializable createRunsStorage runs_args rc e b \<longrightarrow>
      fst (runs createStorage rc e (b, con3)) = fst (createRunsStorage rc e b)
      \<and> fst (snd (runs createStorage rc e (b, con3))) = snd (createRunsStorage rc e b))
   \<and> (serializable createStepsStorage steps_args sc e b \<longrightarrow>
      fst (steps createStorage sc e (b, con4)) = fst (createStepsStorage sc e b)
      \<and> fst (snd (steps createStorage sc e (b, con4))) = snd (createStepsStorage sc e b))"
proof -
  have g: "serializable ob ar cl e b \<Longrightarrow>
      fst (loggerProxy ob ar pre cl e (b, con)) = fst (ob cl e b)
      \<and> fst (snd (loggerProxy ob ar pre cl e (b, con))) = snd (ob cl e b)"
    for ob :: "'x \<Rightarrow> env \<Rightarrow> backend \<Rightarrow> (error + result) \<times> backend" and ar pre cl con
    by (cases "ob cl e b"; cases "fst (ob cl e b)")
       (auto simp: serializable_def loggerProxy_def Let_def)
  show ?thesis
    unfolding createStorage_def storage.sel
    using g[of obj args call prefix console] g[of createEventsStorage events_args ec "''events''" con1]
      g[of createHooksStorage hooks_args hc "''hooks''" con2]
      g[of createRunsStorage runs_args rc "''runs''" con3]
      g[of createStepsStorage steps_args sc "''steps''" con4]
    by blast
qed

theorem loggerProxy_transparent_when_serializable_witness:
  "fst (runs createStorage (Runs_get ''r1'') (env_at 7 ''A'') (b_r1, []))
     = fst (createRunsStorage (Runs_get ''r1'') (env_at 7 ''A'') b_r1)
   \<and> fst (createRunsStorage (Runs_get ''r1'') (env_at 7 ''A'') b_r1) = Inr (Entity (compact run_r1))
   \<and> fst (snd (runs createStorage (Runs_get ''r1'') (env_at 7 ''A'') (b_r1, []))) = b_r1
   \<and> fst (steps createStorage (Steps_get ''r1'' ''s1'') (env_at 7 ''A'') (b_r1, []))
     = Inr (Entity (compact step_s1))
   \<and> fst (hooks createStorage (Hooks_get ''h9'') (env_at 7 ''A'') (b_r1, []))
     = Inl (WorkflowAPIError ''Hook not found: h9'' 404)
   \<and> fst (events createStorage (Events_list ''r1'' None) (env_at 7 ''A'') (b_r1, []))
     = Inr (Page \<lparr>data = [], hasMore = False, next_cursor = Null\<rparr>)"
proof -
  have r: "createRunsStorage (Runs_get ''r1'') (env_at 7 ''A'') b_r1 = (Inr (Entity (compact run_r1)), b_r1)"
    by (simp add: runs_get_def entity_def b_r1_def run_r1_def dyn_get_def attempt_def has_key_def
        runPK_def runMetaSK_def)
  have s: "createStepsStorage (Steps_get ''r1'' ''s1'') (env_at 7 ''A'') b_r1 = (Inr (Entity (compact step_s1)), b_r1)"
    by (simp add: steps_get_def entity_def b_r1_def run_r1_def step_s1_def dyn_get_def attempt_def
        has_key_def runPK_def stepSK_def)
  have h: "createHooksStorage (Hooks_get ''h9'') (env_at 7 ''A'') b_r1
             = (Inl (WorkflowAPIError ''Hook not found: h9'' 404), b_r1)"
    by (simp add: hooks_get_def entity_def b_r1_def run_r1_def step_s1_def hook_h1_def eval_defs)
  have ev: "createEventsStorage (Events_list ''r1'' None) (env_at 7 ''A'') b_r1
             = (Inr (Page \<lparr>data = [], hasMore = False, next_cursor = Null\<rparr>), b_r1)"
    by (simp add: events_list_def events_list_query_def paged_def limit_or_def cursor_of_def
        if_truthy_def sortOrder_of_def last_attr_def is_entity_def b_r1_def run_r1_def step_s1_def
        hook_h1_def eval_defs)
  have sr: "serializable createRunsStorage runs_args (Runs_get ''r1'') (env_at 7 ''A'') b_r1"
    unfolding serializable_def r by (simp add: compact_def run_r1_def is_timestamp_key_def)
  have ss: "serializable createStepsStorage steps_args (Steps_get ''r1'' ''s1'') (env_at 7 ''A'') b_r1"
    unfolding serializable_def s by (simp add: compact_def step_s1_def is_timestamp_key_def)
  have sh: "serializable createHooksStorage hooks_args (Hooks_get ''h9'') (env_at 7 ''A'') b_r1"
    unfolding serializable_def h by simp
  have se: "serializable createEventsStorage events_args (Events_list ''r1'' None) (env_at 7 ''A'') b_r1"
    unfolding serializable_def ev by (simp add: field_def)
  from loggerProxy_transparent_when_serializable[where e = "env_at 7 ''A''" and b = b_r1
      and rc = "Runs_get ''r1''" and sc = "Steps_get ''r1'' ''s1''" and hc = "Hooks_get ''h9''"
      and ec = "Events_list ''r1'' None" and ?con1.0 = "[]" and ?con2.0 = "[]" and ?con3.0 = "[]"
      and ?con4.0 = "[]" and obj = createRunsStorage and args = runs_args
      and call = "Runs_get ''r1''" and prefix = "''runs''" and console = "[]"] sr ss sh se
  show ?thesis unfolding r s h ev by simp
qed

text \<open>
  Without the restriction the claim fails. \<^verbatim>\<open>runs.update\<close> with an output that
  is a \<^verbatim>\<open>BigInt\<close> returns the updated run when called on the store; through the
  wrapper, \<^verbatim>\<open>JSON.stringify(args)\<close> throws a \<open>TypeError\<close> before the store is
  called, and nothing is written.
\<close>

theorem loggerProxy_throws_on_BigInt:
  "fst (createRunsStorage (Runs_update ''r1'' big_output) (env_at 7 ''A'') b_r1)
     = Inr (Entity (compact (AList.update ''updatedAt'' (Num 7)
                       (AList.update ''output'' (BigInt 9007199254740993) run_r1))))
   \<and> runs createStorage (Runs_update ''r1'' big_output) (env_at 7 ''A'') (b_r1, [])
     = (Inl (TypeError ''Do not know how to serialize a BigInt''), b_r1, [])"
  by (simp add: createStorage_def loggerProxy_def big_output_def runs_update_def entity_def copied_def
      b_r1_def run_r1_def step_s1_def hook_h1_def eval_defs)

end
